theory Spec2Isabelle
  imports Complex_Main
begin

section \<open>Python strings\<close>

text \<open>
  A Python \<open>str\<close> is a sequence of Unicode code points; a code point is modelled as a
  natural number and a string as a list of them. \<open>py\<close> turns a literal of the theory
  into such a string.
\<close>

type_synonym codepoint = nat

type_synonym pystr = "codepoint list"

definition py :: "string \<Rightarrow> pystr" where
  "py s = map of_char s"

text \<open>
  The code points that \<open>str.isspace()\<close> accepts and \<open>str.strip()\<close> removes.
\<close>

definition is_space :: "codepoint \<Rightarrow> bool" where
  "is_space c \<longleftrightarrow> c \<in> set [9, 10, 11, 12, 13, 28, 29, 30, 31, 32, 133, 160, 5760,
     8192, 8193, 8194, 8195, 8196, 8197, 8198, 8199, 8200, 8201, 8202,
     8232, 8233, 8239, 8287, 12288]"

subsection \<open>The uppercase mapping\<close>

text \<open>
  \<open>str.upper()\<close> replaces every code point by its full uppercase mapping, which may be
  several code points (U+00DF gives \<open>SS\<close>), and leaves a code point without a mapping as
  it is; the mapping of a code point does not depend on its neighbours. The table is the
  one of the Unicode Character Database 14.0.0, which CPython 3.11 carries: the 1525 code
  points that \<open>str.upper()\<close> changes, in increasing order, in blocks.
\<close>

definition upper_block_1 :: "(codepoint \<times> codepoint list) list" where
  "upper_block_1 =
    [(97, [65]), (98, [66]), (99, [67]), (100, [68]), (101, [69]), (102, [70]), (103, [71]),
     (104, [72]), (105, [73]), (106, [74]), (107, [75]), (108, [76]), (109, [77]),
     (110, [78]), (111, [79]), (112, [80]), (113, [81]), (114, [82]), (115, [83]),
     (116, [84]), (117, [85]), (118, [86]), (119, [87]), (120, [88]), (121, [89]),
     (122, [90])]"

definition upper_block_2 :: "(codepoint \<times> codepoint list) list" where
  "upper_block_2 =
    [(181, [924]), (223, [83, 83]), (224, [192]), (225, [193]), (226, [194]), (227, [195]),
     (228, [196]), (229, [197]), (230, [198]), (231, [199]), (232, [200]), (233, [201]),
     (234, [202]), (235, [203]), (236, [204]), (237, [205]), (238, [206]), (239, [207]),
     (240, [208]), (241, [209]), (242, [210]), (243, [211]), (244, [212]), (245, [213]),
     (246, [214]), (248, [216]), (249, [217]), (250, [218]), (251, [219]), (252, [220]),
     (253, [221]), (254, [222])]"

definition upper_block_3 :: "(codepoint \<times> codepoint list) list" where
  "upper_block_3 =
    [(255, [376]), (257, [256]), (259, [258]), (261, [260]), (263, [262]), (265, [264]),
     (267, [266]), (269, [268]), (271, [270]), (273, [272]), (275, [274]), (277, [276]),
     (279, [278]), (281, [280]), (283, [282]), (285, [284]), (287, [286]), (289, [288]),
     (291, [290]), (293, [292]), (295, [294]), (297, [296]), (299, [298]), (301, [300]),
     (303, [302]), (305, [73]), (307, [306]), (309, [308]), (311, [310]), (314, [313]),
     (316, [315]), (318, [317])]"

definition upper_block_4 :: "(codepoint \<times> codepoint list) list" where
  "upper_block_4 =
    [(320, [319]), (322, [321]), (324, [323]), (326, [325]), (328, [327]), (329, [700, 78]),
     (331, [330]), (333, [332]), (335, [334]), (337, [336]), (339, [338]), (341, [340]),
     (343, [342]), (345, [344]), (347, [346]), (349, [348]), (351, [350]), (353, [352]),
     (355, [354]), (357, [356]), (359, [358]), (361, [360]), (363, [362]), (365, [364]),
     (367, [366]), (369, [368]), (371, [370]), (373, [372]), (375, [374]), (378, [377]),
     (380, [379]), (382, [381])]"

definition upper_block_5 :: "(codepoint \<times> codepoint list) list" where
  "upper_block_5 =
    [(383, [83]), (384, [579]), (387, [386]), (389, [388]), (392, [391]), (396, [395]),
     (402, [401]), (405, [502]), (409, [408]), (410, [573]), (414, [544]), (417, [416]),
     (419, [418]), (421, [420]), (424, [423]), (429, [428]), (432, [431]), (436, [435]),
     (438, [437]), (441, [440]), (445, [444]), (447, [503]), (453, [452]), (454, [452]),
     (456, [455]), (457, [455]), (459, [458]), (460, [458]), (462, [461]), (464, [463]),
     (466, [465]), (468, [467])]"

definition upper_block_6 :: "(codepoint \<times> codepoint list) list" where
  "upper_block_6 =
    [(470, [469]), (472, [471]), (474, [473]), (476, [475]), (477, [398]), (479, [478]),
     (481, [480]), (483, [482]), (485, [484]), (487, [486]), (489, [488]), (491, [490]),
     (493, [492]), (495, [494]), (496, [74, 780]), (498, [497]), (499, [497]), (501, [500]),
     (505, [504]), (507, [506]), (509, [508]), (511, [510]), (513, [512]), (515, [514]),
     (517, [516]), (519, [518]), (521, [520]), (523, [522]), (525, [524]), (527, [526]),
     (529, [528]), (531, [530])]"

definition upper_block_7 :: "(codepoint \<times> codepoint list) list" where
  "upper_block_7 =
    [(533, [532]), (535, [534]), (537, [536]), (539, [538]), (541, [540]), (543, [542]),
     (547, [546]), (549, [548]), (551, [550]), (553, [552]), (555, [554]), (557, [556]),
     (559, [558]), (561, [560]), (563, [562]), (572, [571]), (575, [11390]), (576, [11391]),
     (578, [577]), (583, [582]), (585, [584]), (587, [586]), (589, [588]), (591, [590]),
     (592, [11375]), (593, [11373]), (594, [11376]), (595, [385]), (596, [390]),
     (598, [393]), (599, [394]), (601, [399])]"

definition upper_block_8 :: "(codepoint \<times> codepoint list) list" where
  "upper_block_8 =
    [(603, [400]), (604, [42923]), (608, [403]), (609, [42924]), (611, [404]),
     (613, [42893]), (614, [42922]), (616, [407]), (617, [406]), (618, [42926]),
     (619, [11362]), (620, [42925]), (623, [412]), (625, [11374]), (626, [413]),
     (629, [415]), (637, [11364]), (640, [422]), (642, [42949]), (643, [425]),
     (647, [42929]), (648, [430]), (649, [580]), (650, [433]), (651, [434]), (652, [581]),
     (658, [439]), (669, [42930]), (670, [42928]), (837, [921]), (881, [880]), (883, [882])]"

definition upper_block_9 :: "(codepoint \<times> codepoint list) list" where
  "upper_block_9 =
    [(887, [886]), (891, [1021]), (892, [1022]), (893, [1023]), (912, [921, 776, 769]),
     (940, [902]), (941, [904]), (942, [905]), (943, [906]), (944, [933, 776, 769]),
     (945, [913]), (946, [914]), (947, [915]), (948, [916]), (949, [917]), (950, [918]),
     (951, [919]), (952, [920]), (953, [921]), (954, [922]), (955, [923]), (956, [924]),
     (957, [925]), (958, [926]), (959, [927]), (960, [928]), (961, [929]), (962, [931]),
     (963, [931]), (964, [932]), (965, [933]), (966, [934])]"

definition upper_block_10 :: "(codepoint \<times> codepoint list) list" where
  "upper_block_10 =
    [(967, [935]), (968, [936]), (969, [937]), (970, [938]), (971, [939]), (972, [908]),
     (973, [910]), (974, [911]), (976, [914]), (977, [920]), (981, [934]), (982, [928]),
     (983, [975]), (985, [984]), (987, [986]), (989, [988]), (991, [990]), (993, [992]),
     (995, [994]), (997, [996]), (999, [998]), (1001, [1000]), (1003, [1002]),
     (1005, [1004]), (1007, [1006]), (1008, [922]), (1009, [929]), (1010, [1017]),
     (1011, [895]), (1013, [917]), (1016, [1015]), (1019, [1018])]"

definition upper_block_11 :: "(codepoint \<times> codepoint list) list" where
  "upper_block_11 =
    [(1072, [1040]), (1073, [1041]), (1074, [1042]), (1075, [1043]), (1076, [1044]),
     (1077, [1045]), (1078, [1046]), (1079, [1047]), (1080, [1048]), (1081, [1049]),
     (1082, [1050]), (1083, [1051]), (1084, [1052]), (1085, [1053]), (1086, [1054]),
     (1087, [1055]), (1088, [1056]), (1089, [1057]), (1090, [1058]), (1091, [1059]),
     (1092, [1060]), (1093, [1061]), (1094, [1062]), (1095, [1063]), (1096, [1064]),
     (1097, [1065]), (1098, [1066]), (1099, [1067]), (1100, [1068]), (1101, [1069]),
     (1102, [1070]), (1103, [1071])]"

definition upper_block_12 :: "(codepoint \<times> codepoint list) list" where
  "upper_block_12 =
    [(1104, [1024]), (1105, [1025]), (1106, [1026]), (1107, [1027]), (1108, [1028]),
     (1109, [1029]), (1110, [1030]), (1111, [1031]), (1112, [1032]), (1113, [1033]),
     (1114, [1034]), (1115, [1035]), (1116, [1036]), (1117, [1037]), (1118, [1038]),
     (1119, [1039]), (1121, [1120]), (1123, [1122]), (1125, [1124]), (1127, [1126]),
     (1129, [1128]), (1131, [1130]), (1133, [1132]), (1135, [1134]), (1137, [1136]),
     (1139, [1138]), (1141, [1140]), (1143, [1142]), (1145, [1144]), (1147, [1146]),
     (1149, [1148]), (1151, [1150])]"

definition upper_block_13 :: "(codepoint \<times> codepoint list) list" where
  "upper_block_13 =
    [(1153, [1152]), (1163, [1162]), (1165, [1164]), (1167, [1166]), (1169, [1168]),
     (1171, [1170]), (1173, [1172]), (1175, [1174]), (1177, [1176]), (1179, [1178]),
     (1181, [1180]), (1183, [1182]), (1185, [1184]), (1187, [1186]), (1189, [1188]),
     (1191, [1190]), (1193, [1192]), (1195, [1194]), (1197, [1196]), (1199, [1198]),
     (1201, [1200]), (1203, [1202]), (1205, [1204]), (1207, [1206]), (1209, [1208]),
     (1211, [1210]), (1213, [1212]), (1215, [1214]), (1218, [1217]), (1220, [1219]),
     (1222, [1221]), (1224, [1223])]"

definition upper_block_14 :: "(codepoint \<times> codepoint list) list" where
  "upper_block_14 =
    [(1226, [1225]), (1228, [1227]), (1230, [1229]), (1231, [1216]), (1233, [1232]),
     (1235, [1234]), (1237, [1236]), (1239, [1238]), (1241, [1240]), (1243, [1242]),
     (1245, [1244]), (1247, [1246]), (1249, [1248]), (1251, [1250]), (1253, [1252]),
     (1255, [1254]), (1257, [1256]), (1259, [1258]), (1261, [1260]), (1263, [1262]),
     (1265, [1264]), (1267, [1266]), (1269, [1268]), (1271, [1270]), (1273, [1272]),
     (1275, [1274]), (1277, [1276]), (1279, [1278]), (1281, [1280]), (1283, [1282]),
     (1285, [1284]), (1287, [1286])]"

definition upper_block_15 :: "(codepoint \<times> codepoint list) list" where
  "upper_block_15 =
    [(1289, [1288]), (1291, [1290]), (1293, [1292]), (1295, [1294]), (1297, [1296]),
     (1299, [1298]), (1301, [1300]), (1303, [1302]), (1305, [1304]), (1307, [1306]),
     (1309, [1308]), (1311, [1310]), (1313, [1312]), (1315, [1314]), (1317, [1316]),
     (1319, [1318]), (1321, [1320]), (1323, [1322]), (1325, [1324]), (1327, [1326]),
     (1377, [1329]), (1378, [1330]), (1379, [1331]), (1380, [1332]), (1381, [1333]),
     (1382, [1334]), (1383, [1335]), (1384, [1336]), (1385, [1337]), (1386, [1338]),
     (1387, [1339]), (1388, [1340])]"

definition upper_block_16 :: "(codepoint \<times> codepoint list) list" where
  "upper_block_16 =
    [(1389, [1341]), (1390, [1342]), (1391, [1343]), (1392, [1344]), (1393, [1345]),
     (1394, [1346]), (1395, [1347]), (1396, [1348]), (1397, [1349]), (1398, [1350]),
     (1399, [1351]), (1400, [1352]), (1401, [1353]), (1402, [1354]), (1403, [1355]),
     (1404, [1356]), (1405, [1357]), (1406, [1358]), (1407, [1359]), (1408, [1360]),
     (1409, [1361]), (1410, [1362]), (1411, [1363]), (1412, [1364]), (1413, [1365]),
     (1414, [1366]), (1415, [1333, 1362]), (4304, [7312]), (4305, [7313]), (4306, [7314]),
     (4307, [7315]), (4308, [7316])]"

definition upper_block_17 :: "(codepoint \<times> codepoint list) list" where
  "upper_block_17 =
    [(4309, [7317]), (4310, [7318]), (4311, [7319]), (4312, [7320]), (4313, [7321]),
     (4314, [7322]), (4315, [7323]), (4316, [7324]), (4317, [7325]), (4318, [7326]),
     (4319, [7327]), (4320, [7328]), (4321, [7329]), (4322, [7330]), (4323, [7331]),
     (4324, [7332]), (4325, [7333]), (4326, [7334]), (4327, [7335]), (4328, [7336]),
     (4329, [7337]), (4330, [7338]), (4331, [7339]), (4332, [7340]), (4333, [7341]),
     (4334, [7342]), (4335, [7343]), (4336, [7344]), (4337, [7345]), (4338, [7346]),
     (4339, [7347]), (4340, [7348])]"

definition upper_block_18 :: "(codepoint \<times> codepoint list) list" where
  "upper_block_18 =
    [(4341, [7349]), (4342, [7350]), (4343, [7351]), (4344, [7352]), (4345, [7353]),
     (4346, [7354]), (4349, [7357]), (4350, [7358]), (4351, [7359]), (5112, [5104]),
     (5113, [5105]), (5114, [5106]), (5115, [5107]), (5116, [5108]), (5117, [5109]),
     (7296, [1042]), (7297, [1044]), (7298, [1054]), (7299, [1057]), (7300, [1058]),
     (7301, [1058]), (7302, [1066]), (7303, [1122]), (7304, [42570]), (7545, [42877]),
     (7549, [11363]), (7566, [42950]), (7681, [7680]), (7683, [7682]), (7685, [7684]),
     (7687, [7686]), (7689, [7688])]"

definition upper_block_19 :: "(codepoint \<times> codepoint list) list" where
  "upper_block_19 =
    [(7691, [7690]), (7693, [7692]), (7695, [7694]), (7697, [7696]), (7699, [7698]),
     (7701, [7700]), (7703, [7702]), (7705, [7704]), (7707, [7706]), (7709, [7708]),
     (7711, [7710]), (7713, [7712]), (7715, [7714]), (7717, [7716]), (7719, [7718]),
     (7721, [7720]), (7723, [7722]), (7725, [7724]), (7727, [7726]), (7729, [7728]),
     (7731, [7730]), (7733, [7732]), (7735, [7734]), (7737, [7736]), (7739, [7738]),
     (7741, [7740]), (7743, [7742]), (7745, [7744]), (7747, [7746]), (7749, [7748]),
     (7751, [7750]), (7753, [7752])]"

definition upper_block_20 :: "(codepoint \<times> codepoint list) list" where
  "upper_block_20 =
    [(7755, [7754]), (7757, [7756]), (7759, [7758]), (7761, [7760]), (7763, [7762]),
     (7765, [7764]), (7767, [7766]), (7769, [7768]), (7771, [7770]), (7773, [7772]),
     (7775, [7774]), (7777, [7776]), (7779, [7778]), (7781, [7780]), (7783, [7782]),
     (7785, [7784]), (7787, [7786]), (7789, [7788]), (7791, [7790]), (7793, [7792]),
     (7795, [7794]), (7797, [7796]), (7799, [7798]), (7801, [7800]), (7803, [7802]),
     (7805, [7804]), (7807, [7806]), (7809, [7808]), (7811, [7810]), (7813, [7812]),
     (7815, [7814]), (7817, [7816])]"

definition upper_block_21 :: "(codepoint \<times> codepoint list) list" where
  "upper_block_21 =
    [(7819, [7818]), (7821, [7820]), (7823, [7822]), (7825, [7824]), (7827, [7826]),
     (7829, [7828]), (7830, [72, 817]), (7831, [84, 776]), (7832, [87, 778]),
     (7833, [89, 778]), (7834, [65, 702]), (7835, [7776]), (7841, [7840]), (7843, [7842]),
     (7845, [7844]), (7847, [7846]), (7849, [7848]), (7851, [7850]), (7853, [7852]),
     (7855, [7854]), (7857, [7856]), (7859, [7858]), (7861, [7860]), (7863, [7862]),
     (7865, [7864]), (7867, [7866]), (7869, [7868]), (7871, [7870]), (7873, [7872]),
     (7875, [7874]), (7877, [7876]), (7879, [7878])]"

definition upper_block_22 :: "(codepoint \<times> codepoint list) list" where
  "upper_block_22 =
    [(7881, [7880]), (7883, [7882]), (7885, [7884]), (7887, [7886]), (7889, [7888]),
     (7891, [7890]), (7893, [7892]), (7895, [7894]), (7897, [7896]), (7899, [7898]),
     (7901, [7900]), (7903, [7902]), (7905, [7904]), (7907, [7906]), (7909, [7908]),
     (7911, [7910]), (7913, [7912]), (7915, [7914]), (7917, [7916]), (7919, [7918]),
     (7921, [7920]), (7923, [7922]), (7925, [7924]), (7927, [7926]), (7929, [7928]),
     (7931, [7930]), (7933, [7932]), (7935, [7934]), (7936, [7944]), (7937, [7945]),
     (7938, [7946]), (7939, [7947])]"

definition upper_block_23 :: "(codepoint \<times> codepoint list) list" where
  "upper_block_23 =
    [(7940, [7948]), (7941, [7949]), (7942, [7950]), (7943, [7951]), (7952, [7960]),
     (7953, [7961]), (7954, [7962]), (7955, [7963]), (7956, [7964]), (7957, [7965]),
     (7968, [7976]), (7969, [7977]), (7970, [7978]), (7971, [7979]), (7972, [7980]),
     (7973, [7981]), (7974, [7982]), (7975, [7983]), (7984, [7992]), (7985, [7993]),
     (7986, [7994]), (7987, [7995]), (7988, [7996]), (7989, [7997]), (7990, [7998]),
     (7991, [7999]), (8000, [8008]), (8001, [8009]), (8002, [8010]), (8003, [8011]),
     (8004, [8012]), (8005, [8013])]"

definition upper_block_24 :: "(codepoint \<times> codepoint list) list" where
  "upper_block_24 =
    [(8016, [933, 787]), (8017, [8025]), (8018, [933, 787, 768]), (8019, [8027]),
     (8020, [933, 787, 769]), (8021, [8029]), (8022, [933, 787, 834]), (8023, [8031]),
     (8032, [8040]), (8033, [8041]), (8034, [8042]), (8035, [8043]), (8036, [8044]),
     (8037, [8045]), (8038, [8046]), (8039, [8047]), (8048, [8122]), (8049, [8123]),
     (8050, [8136]), (8051, [8137]), (8052, [8138]), (8053, [8139]), (8054, [8154]),
     (8055, [8155]), (8056, [8184]), (8057, [8185]), (8058, [8170]), (8059, [8171]),
     (8060, [8186]), (8061, [8187]), (8064, [7944, 921]), (8065, [7945, 921])]"

definition upper_block_25 :: "(codepoint \<times> codepoint list) list" where
  "upper_block_25 =
    [(8066, [7946, 921]), (8067, [7947, 921]), (8068, [7948, 921]), (8069, [7949, 921]),
     (8070, [7950, 921]), (8071, [7951, 921]), (8072, [7944, 921]), (8073, [7945, 921]),
     (8074, [7946, 921]), (8075, [7947, 921]), (8076, [7948, 921]), (8077, [7949, 921]),
     (8078, [7950, 921]), (8079, [7951, 921]), (8080, [7976, 921]), (8081, [7977, 921]),
     (8082, [7978, 921]), (8083, [7979, 921]), (8084, [7980, 921]), (8085, [7981, 921]),
     (8086, [7982, 921]), (8087, [7983, 921]), (8088, [7976, 921]), (8089, [7977, 921]),
     (8090, [7978, 921]), (8091, [7979, 921]), (8092, [7980, 921]), (8093, [7981, 921]),
     (8094, [7982, 921]), (8095, [7983, 921]), (8096, [8040, 921]), (8097, [8041, 921])]"

definition upper_block_26 :: "(codepoint \<times> codepoint list) list" where
  "upper_block_26 =
    [(8098, [8042, 921]), (8099, [8043, 921]), (8100, [8044, 921]), (8101, [8045, 921]),
     (8102, [8046, 921]), (8103, [8047, 921]), (8104, [8040, 921]), (8105, [8041, 921]),
     (8106, [8042, 921]), (8107, [8043, 921]), (8108, [8044, 921]), (8109, [8045, 921]),
     (8110, [8046, 921]), (8111, [8047, 921]), (8112, [8120]), (8113, [8121]),
     (8114, [8122, 921]), (8115, [913, 921]), (8116, [902, 921]), (8118, [913, 834]),
     (8119, [913, 834, 921]), (8124, [913, 921]), (8126, [921]), (8130, [8138, 921]),
     (8131, [919, 921]), (8132, [905, 921]), (8134, [919, 834]), (8135, [919, 834, 921]),
     (8140, [919, 921]), (8144, [8152]), (8145, [8153]), (8146, [921, 776, 768])]"

definition upper_block_27 :: "(codepoint \<times> codepoint list) list" where
  "upper_block_27 =
    [(8147, [921, 776, 769]), (8150, [921, 834]), (8151, [921, 776, 834]), (8160, [8168]),
     (8161, [8169]), (8162, [933, 776, 768]), (8163, [933, 776, 769]), (8164, [929, 787]),
     (8165, [8172]), (8166, [933, 834]), (8167, [933, 776, 834]), (8178, [8186, 921]),
     (8179, [937, 921]), (8180, [911, 921]), (8182, [937, 834]), (8183, [937, 834, 921]),
     (8188, [937, 921]), (8526, [8498]), (8560, [8544]), (8561, [8545]), (8562, [8546]),
     (8563, [8547]), (8564, [8548]), (8565, [8549]), (8566, [8550]), (8567, [8551]),
     (8568, [8552]), (8569, [8553]), (8570, [8554]), (8571, [8555]), (8572, [8556]),
     (8573, [8557])]"

definition upper_block_28 :: "(codepoint \<times> codepoint list) list" where
  "upper_block_28 =
    [(8574, [8558]), (8575, [8559]), (8580, [8579]), (9424, [9398]), (9425, [9399]),
     (9426, [9400]), (9427, [9401]), (9428, [9402]), (9429, [9403]), (9430, [9404]),
     (9431, [9405]), (9432, [9406]), (9433, [9407]), (9434, [9408]), (9435, [9409]),
     (9436, [9410]), (9437, [9411]), (9438, [9412]), (9439, [9413]), (9440, [9414]),
     (9441, [9415]), (9442, [9416]), (9443, [9417]), (9444, [9418]), (9445, [9419]),
     (9446, [9420]), (9447, [9421]), (9448, [9422]), (9449, [9423]), (11312, [11264]),
     (11313, [11265]), (11314, [11266])]"

definition upper_block_29 :: "(codepoint \<times> codepoint list) list" where
  "upper_block_29 =
    [(11315, [11267]), (11316, [11268]), (11317, [11269]), (11318, [11270]),
     (11319, [11271]), (11320, [11272]), (11321, [11273]), (11322, [11274]),
     (11323, [11275]), (11324, [11276]), (11325, [11277]), (11326, [11278]),
     (11327, [11279]), (11328, [11280]), (11329, [11281]), (11330, [11282]),
     (11331, [11283]), (11332, [11284]), (11333, [11285]), (11334, [11286]),
     (11335, [11287]), (11336, [11288]), (11337, [11289]), (11338, [11290]),
     (11339, [11291]), (11340, [11292]), (11341, [11293]), (11342, [11294]),
     (11343, [11295]), (11344, [11296]), (11345, [11297]), (11346, [11298])]"

definition upper_block_30 :: "(codepoint \<times> codepoint list) list" where
  "upper_block_30 =
    [(11347, [11299]), (11348, [11300]), (11349, [11301]), (11350, [11302]),
     (11351, [11303]), (11352, [11304]), (11353, [11305]), (11354, [11306]),
     (11355, [11307]), (11356, [11308]), (11357, [11309]), (11358, [11310]),
     (11359, [11311]), (11361, [11360]), (11365, [570]), (11366, [574]), (11368, [11367]),
     (11370, [11369]), (11372, [11371]), (11379, [11378]), (11382, [11381]),
     (11393, [11392]), (11395, [11394]), (11397, [11396]), (11399, [11398]),
     (11401, [11400]), (11403, [11402]), (11405, [11404]), (11407, [11406]),
     (11409, [11408]), (11411, [11410]), (11413, [11412])]"

definition upper_block_31 :: "(codepoint \<times> codepoint list) list" where
  "upper_block_31 =
    [(11415, [11414]), (11417, [11416]), (11419, [11418]), (11421, [11420]),
     (11423, [11422]), (11425, [11424]), (11427, [11426]), (11429, [11428]),
     (11431, [11430]), (11433, [11432]), (11435, [11434]), (11437, [11436]),
     (11439, [11438]), (11441, [11440]), (11443, [11442]), (11445, [11444]),
     (11447, [11446]), (11449, [11448]), (11451, [11450]), (11453, [11452]),
     (11455, [11454]), (11457, [11456]), (11459, [11458]), (11461, [11460]),
     (11463, [11462]), (11465, [11464]), (11467, [11466]), (11469, [11468]),
     (11471, [11470]), (11473, [11472]), (11475, [11474]), (11477, [11476])]"

definition upper_block_32 :: "(codepoint \<times> codepoint list) list" where
  "upper_block_32 =
    [(11479, [11478]), (11481, [11480]), (11483, [11482]), (11485, [11484]),
     (11487, [11486]), (11489, [11488]), (11491, [11490]), (11500, [11499]),
     (11502, [11501]), (11507, [11506]), (11520, [4256]), (11521, [4257]), (11522, [4258]),
     (11523, [4259]), (11524, [4260]), (11525, [4261]), (11526, [4262]), (11527, [4263]),
     (11528, [4264]), (11529, [4265]), (11530, [4266]), (11531, [4267]), (11532, [4268]),
     (11533, [4269]), (11534, [4270]), (11535, [4271]), (11536, [4272]), (11537, [4273]),
     (11538, [4274]), (11539, [4275]), (11540, [4276]), (11541, [4277])]"

definition upper_block_33 :: "(codepoint \<times> codepoint list) list" where
  "upper_block_33 =
    [(11542, [4278]), (11543, [4279]), (11544, [4280]), (11545, [4281]), (11546, [4282]),
     (11547, [4283]), (11548, [4284]), (11549, [4285]), (11550, [4286]), (11551, [4287]),
     (11552, [4288]), (11553, [4289]), (11554, [4290]), (11555, [4291]), (11556, [4292]),
     (11557, [4293]), (11559, [4295]), (11565, [4301]), (42561, [42560]), (42563, [42562]),
     (42565, [42564]), (42567, [42566]), (42569, [42568]), (42571, [42570]),
     (42573, [42572]), (42575, [42574]), (42577, [42576]), (42579, [42578]),
     (42581, [42580]), (42583, [42582]), (42585, [42584]), (42587, [42586])]"

definition upper_block_34 :: "(codepoint \<times> codepoint list) list" where
  "upper_block_34 =
    [(42589, [42588]), (42591, [42590]), (42593, [42592]), (42595, [42594]),
     (42597, [42596]), (42599, [42598]), (42601, [42600]), (42603, [42602]),
     (42605, [42604]), (42625, [42624]), (42627, [42626]), (42629, [42628]),
     (42631, [42630]), (42633, [42632]), (42635, [42634]), (42637, [42636]),
     (42639, [42638]), (42641, [42640]), (42643, [42642]), (42645, [42644]),
     (42647, [42646]), (42649, [42648]), (42651, [42650]), (42787, [42786]),
     (42789, [42788]), (42791, [42790]), (42793, [42792]), (42795, [42794]),
     (42797, [42796]), (42799, [42798]), (42803, [42802]), (42805, [42804])]"

definition upper_block_35 :: "(codepoint \<times> codepoint list) list" where
  "upper_block_35 =
    [(42807, [42806]), (42809, [42808]), (42811, [42810]), (42813, [42812]),
     (42815, [42814]), (42817, [42816]), (42819, [42818]), (42821, [42820]),
     (42823, [42822]), (42825, [42824]), (42827, [42826]), (42829, [42828]),
     (42831, [42830]), (42833, [42832]), (42835, [42834]), (42837, [42836]),
     (42839, [42838]), (42841, [42840]), (42843, [42842]), (42845, [42844]),
     (42847, [42846]), (42849, [42848]), (42851, [42850]), (42853, [42852]),
     (42855, [42854]), (42857, [42856]), (42859, [42858]), (42861, [42860]),
     (42863, [42862]), (42874, [42873]), (42876, [42875]), (42879, [42878])]"

definition upper_block_36 :: "(codepoint \<times> codepoint list) list" where
  "upper_block_36 =
    [(42881, [42880]), (42883, [42882]), (42885, [42884]), (42887, [42886]),
     (42892, [42891]), (42897, [42896]), (42899, [42898]), (42900, [42948]),
     (42903, [42902]), (42905, [42904]), (42907, [42906]), (42909, [42908]),
     (42911, [42910]), (42913, [42912]), (42915, [42914]), (42917, [42916]),
     (42919, [42918]), (42921, [42920]), (42933, [42932]), (42935, [42934]),
     (42937, [42936]), (42939, [42938]), (42941, [42940]), (42943, [42942]),
     (42945, [42944]), (42947, [42946]), (42952, [42951]), (42954, [42953]),
     (42961, [42960]), (42967, [42966]), (42969, [42968]), (42998, [42997])]"

definition upper_block_37 :: "(codepoint \<times> codepoint list) list" where
  "upper_block_37 =
    [(43859, [42931]), (43888, [5024]), (43889, [5025]), (43890, [5026]), (43891, [5027]),
     (43892, [5028]), (43893, [5029]), (43894, [5030]), (43895, [5031]), (43896, [5032]),
     (43897, [5033]), (43898, [5034]), (43899, [5035]), (43900, [5036]), (43901, [5037]),
     (43902, [5038]), (43903, [5039]), (43904, [5040]), (43905, [5041]), (43906, [5042]),
     (43907, [5043]), (43908, [5044]), (43909, [5045]), (43910, [5046]), (43911, [5047]),
     (43912, [5048]), (43913, [5049]), (43914, [5050]), (43915, [5051]), (43916, [5052]),
     (43917, [5053]), (43918, [5054])]"

definition upper_block_38 :: "(codepoint \<times> codepoint list) list" where
  "upper_block_38 =
    [(43919, [5055]), (43920, [5056]), (43921, [5057]), (43922, [5058]), (43923, [5059]),
     (43924, [5060]), (43925, [5061]), (43926, [5062]), (43927, [5063]), (43928, [5064]),
     (43929, [5065]), (43930, [5066]), (43931, [5067]), (43932, [5068]), (43933, [5069]),
     (43934, [5070]), (43935, [5071]), (43936, [5072]), (43937, [5073]), (43938, [5074]),
     (43939, [5075]), (43940, [5076]), (43941, [5077]), (43942, [5078]), (43943, [5079]),
     (43944, [5080]), (43945, [5081]), (43946, [5082]), (43947, [5083]), (43948, [5084]),
     (43949, [5085]), (43950, [5086])]"

definition upper_block_39 :: "(codepoint \<times> codepoint list) list" where
  "upper_block_39 =
    [(43951, [5087]), (43952, [5088]), (43953, [5089]), (43954, [5090]), (43955, [5091]),
     (43956, [5092]), (43957, [5093]), (43958, [5094]), (43959, [5095]), (43960, [5096]),
     (43961, [5097]), (43962, [5098]), (43963, [5099]), (43964, [5100]), (43965, [5101]),
     (43966, [5102]), (43967, [5103]), (64256, [70, 70]), (64257, [70, 73]),
     (64258, [70, 76]), (64259, [70, 70, 73]), (64260, [70, 70, 76]), (64261, [83, 84]),
     (64262, [83, 84]), (64275, [1348, 1350]), (64276, [1348, 1333]), (64277, [1348, 1339]),
     (64278, [1358, 1350]), (64279, [1348, 1341]), (65345, [65313]), (65346, [65314]),
     (65347, [65315])]"

definition upper_block_40 :: "(codepoint \<times> codepoint list) list" where
  "upper_block_40 =
    [(65348, [65316]), (65349, [65317]), (65350, [65318]), (65351, [65319]),
     (65352, [65320]), (65353, [65321]), (65354, [65322]), (65355, [65323]),
     (65356, [65324]), (65357, [65325]), (65358, [65326]), (65359, [65327]),
     (65360, [65328]), (65361, [65329]), (65362, [65330]), (65363, [65331]),
     (65364, [65332]), (65365, [65333]), (65366, [65334]), (65367, [65335]),
     (65368, [65336]), (65369, [65337]), (65370, [65338]), (66600, [66560]),
     (66601, [66561]), (66602, [66562]), (66603, [66563]), (66604, [66564]),
     (66605, [66565]), (66606, [66566]), (66607, [66567]), (66608, [66568])]"

definition upper_block_41 :: "(codepoint \<times> codepoint list) list" where
  "upper_block_41 =
    [(66609, [66569]), (66610, [66570]), (66611, [66571]), (66612, [66572]),
     (66613, [66573]), (66614, [66574]), (66615, [66575]), (66616, [66576]),
     (66617, [66577]), (66618, [66578]), (66619, [66579]), (66620, [66580]),
     (66621, [66581]), (66622, [66582]), (66623, [66583]), (66624, [66584]),
     (66625, [66585]), (66626, [66586]), (66627, [66587]), (66628, [66588]),
     (66629, [66589]), (66630, [66590]), (66631, [66591]), (66632, [66592]),
     (66633, [66593]), (66634, [66594]), (66635, [66595]), (66636, [66596]),
     (66637, [66597]), (66638, [66598]), (66639, [66599]), (66776, [66736])]"

definition upper_block_42 :: "(codepoint \<times> codepoint list) list" where
  "upper_block_42 =
    [(66777, [66737]), (66778, [66738]), (66779, [66739]), (66780, [66740]),
     (66781, [66741]), (66782, [66742]), (66783, [66743]), (66784, [66744]),
     (66785, [66745]), (66786, [66746]), (66787, [66747]), (66788, [66748]),
     (66789, [66749]), (66790, [66750]), (66791, [66751]), (66792, [66752]),
     (66793, [66753]), (66794, [66754]), (66795, [66755]), (66796, [66756]),
     (66797, [66757]), (66798, [66758]), (66799, [66759]), (66800, [66760]),
     (66801, [66761]), (66802, [66762]), (66803, [66763]), (66804, [66764]),
     (66805, [66765]), (66806, [66766]), (66807, [66767]), (66808, [66768])]"

definition upper_block_43 :: "(codepoint \<times> codepoint list) list" where
  "upper_block_43 =
    [(66809, [66769]), (66810, [66770]), (66811, [66771]), (66967, [66928]),
     (66968, [66929]), (66969, [66930]), (66970, [66931]), (66971, [66932]),
     (66972, [66933]), (66973, [66934]), (66974, [66935]), (66975, [66936]),
     (66976, [66937]), (66977, [66938]), (66979, [66940]), (66980, [66941]),
     (66981, [66942]), (66982, [66943]), (66983, [66944]), (66984, [66945]),
     (66985, [66946]), (66986, [66947]), (66987, [66948]), (66988, [66949]),
     (66989, [66950]), (66990, [66951]), (66991, [66952]), (66992, [66953]),
     (66993, [66954]), (66995, [66956]), (66996, [66957]), (66997, [66958])]"

definition upper_block_44 :: "(codepoint \<times> codepoint list) list" where
  "upper_block_44 =
    [(66998, [66959]), (66999, [66960]), (67000, [66961]), (67001, [66962]),
     (67003, [66964]), (67004, [66965]), (68800, [68736]), (68801, [68737]),
     (68802, [68738]), (68803, [68739]), (68804, [68740]), (68805, [68741]),
     (68806, [68742]), (68807, [68743]), (68808, [68744]), (68809, [68745]),
     (68810, [68746]), (68811, [68747]), (68812, [68748]), (68813, [68749]),
     (68814, [68750]), (68815, [68751]), (68816, [68752]), (68817, [68753]),
     (68818, [68754]), (68819, [68755]), (68820, [68756]), (68821, [68757]),
     (68822, [68758]), (68823, [68759]), (68824, [68760]), (68825, [68761])]"

definition upper_block_45 :: "(codepoint \<times> codepoint list) list" where
  "upper_block_45 =
    [(68826, [68762]), (68827, [68763]), (68828, [68764]), (68829, [68765]),
     (68830, [68766]), (68831, [68767]), (68832, [68768]), (68833, [68769]),
     (68834, [68770]), (68835, [68771]), (68836, [68772]), (68837, [68773]),
     (68838, [68774]), (68839, [68775]), (68840, [68776]), (68841, [68777]),
     (68842, [68778]), (68843, [68779]), (68844, [68780]), (68845, [68781]),
     (68846, [68782]), (68847, [68783]), (68848, [68784]), (68849, [68785]),
     (68850, [68786]), (71872, [71840]), (71873, [71841]), (71874, [71842]),
     (71875, [71843]), (71876, [71844]), (71877, [71845]), (71878, [71846])]"

definition upper_block_46 :: "(codepoint \<times> codepoint list) list" where
  "upper_block_46 =
    [(71879, [71847]), (71880, [71848]), (71881, [71849]), (71882, [71850]),
     (71883, [71851]), (71884, [71852]), (71885, [71853]), (71886, [71854]),
     (71887, [71855]), (71888, [71856]), (71889, [71857]), (71890, [71858]),
     (71891, [71859]), (71892, [71860]), (71893, [71861]), (71894, [71862]),
     (71895, [71863]), (71896, [71864]), (71897, [71865]), (71898, [71866]),
     (71899, [71867]), (71900, [71868]), (71901, [71869]), (71902, [71870]),
     (71903, [71871]), (93792, [93760]), (93793, [93761]), (93794, [93762]),
     (93795, [93763]), (93796, [93764]), (93797, [93765]), (93798, [93766])]"

definition upper_block_47 :: "(codepoint \<times> codepoint list) list" where
  "upper_block_47 =
    [(93799, [93767]), (93800, [93768]), (93801, [93769]), (93802, [93770]),
     (93803, [93771]), (93804, [93772]), (93805, [93773]), (93806, [93774]),
     (93807, [93775]), (93808, [93776]), (93809, [93777]), (93810, [93778]),
     (93811, [93779]), (93812, [93780]), (93813, [93781]), (93814, [93782]),
     (93815, [93783]), (93816, [93784]), (93817, [93785]), (93818, [93786]),
     (93819, [93787]), (93820, [93788]), (93821, [93789]), (93822, [93790]),
     (93823, [93791]), (125218, [125184]), (125219, [125185]), (125220, [125186]),
     (125221, [125187]), (125222, [125188]), (125223, [125189]), (125224, [125190])]"

definition upper_block_48 :: "(codepoint \<times> codepoint list) list" where
  "upper_block_48 =
    [(125225, [125191]), (125226, [125192]), (125227, [125193]), (125228, [125194]),
     (125229, [125195]), (125230, [125196]), (125231, [125197]), (125232, [125198]),
     (125233, [125199]), (125234, [125200]), (125235, [125201]), (125236, [125202]),
     (125237, [125203]), (125238, [125204]), (125239, [125205]), (125240, [125206]),
     (125241, [125207]), (125242, [125208]), (125243, [125209]), (125244, [125210]),
     (125245, [125211]), (125246, [125212]), (125247, [125213]), (125248, [125214]),
     (125249, [125215]), (125250, [125216]), (125251, [125217])]"

text \<open>The block is chosen by the largest code point it holds.\<close>

definition upper_entry :: "codepoint \<Rightarrow> codepoint list option" where
  "upper_entry c =
     (if c \<le> 127 then map_of upper_block_1 c
      else if c \<le> 254 then map_of upper_block_2 c
      else if c \<le> 318 then map_of upper_block_3 c
      else if c \<le> 382 then map_of upper_block_4 c
      else if c \<le> 468 then map_of upper_block_5 c
      else if c \<le> 531 then map_of upper_block_6 c
      else if c \<le> 601 then map_of upper_block_7 c
      else if c \<le> 883 then map_of upper_block_8 c
      else if c \<le> 966 then map_of upper_block_9 c
      else if c \<le> 1019 then map_of upper_block_10 c
      else if c \<le> 1103 then map_of upper_block_11 c
      else if c \<le> 1151 then map_of upper_block_12 c
      else if c \<le> 1224 then map_of upper_block_13 c
      else if c \<le> 1287 then map_of upper_block_14 c
      else if c \<le> 1388 then map_of upper_block_15 c
      else if c \<le> 4308 then map_of upper_block_16 c
      else if c \<le> 4340 then map_of upper_block_17 c
      else if c \<le> 7689 then map_of upper_block_18 c
      else if c \<le> 7753 then map_of upper_block_19 c
      else if c \<le> 7817 then map_of upper_block_20 c
      else if c \<le> 7879 then map_of upper_block_21 c
      else if c \<le> 7939 then map_of upper_block_22 c
      else if c \<le> 8005 then map_of upper_block_23 c
      else if c \<le> 8065 then map_of upper_block_24 c
      else if c \<le> 8097 then map_of upper_block_25 c
      else if c \<le> 8146 then map_of upper_block_26 c
      else if c \<le> 8573 then map_of upper_block_27 c
      else if c \<le> 11314 then map_of upper_block_28 c
      else if c \<le> 11346 then map_of upper_block_29 c
      else if c \<le> 11413 then map_of upper_block_30 c
      else if c \<le> 11477 then map_of upper_block_31 c
      else if c \<le> 11541 then map_of upper_block_32 c
      else if c \<le> 42587 then map_of upper_block_33 c
      else if c \<le> 42805 then map_of upper_block_34 c
      else if c \<le> 42879 then map_of upper_block_35 c
      else if c \<le> 42998 then map_of upper_block_36 c
      else if c \<le> 43918 then map_of upper_block_37 c
      else if c \<le> 43950 then map_of upper_block_38 c
      else if c \<le> 65347 then map_of upper_block_39 c
      else if c \<le> 66608 then map_of upper_block_40 c
      else if c \<le> 66776 then map_of upper_block_41 c
      else if c \<le> 66808 then map_of upper_block_42 c
      else if c \<le> 66997 then map_of upper_block_43 c
      else if c \<le> 68825 then map_of upper_block_44 c
      else if c \<le> 71878 then map_of upper_block_45 c
      else if c \<le> 93798 then map_of upper_block_46 c
      else if c \<le> 125224 then map_of upper_block_47 c
      else if c \<le> 125251 then map_of upper_block_48 c
      else None)"

definition upper_cp :: "codepoint \<Rightarrow> pystr" where
  "upper_cp c = (case upper_entry c of None \<Rightarrow> [c] | Some v \<Rightarrow> v)"

definition upper :: "pystr \<Rightarrow> pystr" where
  \<comment> \<open>\<open>s.upper()\<close>\<close>
  "upper s = concat (map upper_cp s)"

text \<open>
  What the proofs need of an entry of the table: the mapping is not empty, its code points
  have no mapping themselves, and neither they nor the code point mapped are whitespace.
\<close>

definition entry_ok :: "codepoint \<times> codepoint list \<Rightarrow> bool" where
  "entry_ok e =
     (case e of (k, v) \<Rightarrow>
        v \<noteq> [] \<and> \<not> is_space k \<and> list_all (\<lambda>d. upper_entry d = None \<and> \<not> is_space d) v)"

definition block_ok :: "(codepoint \<times> codepoint list) list \<Rightarrow> bool" where
  "block_ok b = list_all entry_ok b"

subsection \<open>The other string methods\<close>

definition strip :: "pystr \<Rightarrow> pystr" where
  \<comment> \<open>\<open>s.strip()\<close>: whitespace removed at both ends\<close>
  "strip s = rev (dropWhile is_space (rev (dropWhile is_space s)))"

definition replace_space :: "pystr \<Rightarrow> pystr" where
  \<comment> \<open>\<open>s.replace(" ", "")\<close>: every U+0020 (32) removed, nothing else\<close>
  "replace_space s = filter (\<lambda>c. c \<noteq> 32) s"

fun split_on :: "codepoint \<Rightarrow> pystr \<Rightarrow> pystr list" where
  \<comment> \<open>\<open>s.split(sep)\<close> for a separator of one code point\<close>
  "split_on sep [] = [[]]"
| "split_on sep (c # cs) =
     (if c = sep then [] # split_on sep cs
      else (case split_on sep cs of [] \<Rightarrow> [[c]] | w # ws \<Rightarrow> (c # w) # ws))"

fun join :: "pystr \<Rightarrow> pystr list \<Rightarrow> pystr" where
  \<comment> \<open>\<open>sep.join(xs)\<close>\<close>
  "join sep [] = []"
| "join sep [x] = x"
| "join sep (x # y # ys) = x @ sep @ join sep (y # ys)"

definition blank :: "pystr \<Rightarrow> bool" where
  \<comment> \<open>empty, or whitespace only\<close>
  "blank s \<longleftrightarrow> (\<forall>c\<in>set s. is_space c)"

text \<open>A stripped string: no whitespace at either end.\<close>

definition stripped :: "pystr \<Rightarrow> bool" where
  "stripped s \<longleftrightarrow> (s = [] \<or> (\<not> is_space (hd s) \<and> \<not> is_space (last s)))"


section \<open>The target store and the configuration handler\<close>

text \<open>The three module-level globals of \<open>app.py\<close>.\<close>

record store =
  TARGET_PLATE_NUMBERS :: "pystr list"
  RECIPIENT_NAME :: pystr
  RECIPIENT_PHONE_NUMBER :: pystr

definition initial_store :: store where
  "initial_store = \<lparr>TARGET_PLATE_NUMBERS = [], RECIPIENT_NAME = [], RECIPIENT_PHONE_NUMBER = []\<rparr>"

text \<open>Python values that reach a template: \<open>None\<close>, a string or a number.\<close>

datatype pyval = PNone | PStr pystr | PNum rat

text \<open>What a handler returns: a redirect to an endpoint, or a rendered template with its arguments.\<close>

datatype response =
    Redirect pystr
  | Login_page
  | Detect_page "pystr list" pystr
  | Result_page "pystr list" "pystr list" pyval pyval pyval "pystr option"

text \<open>A flashed message with its category.\<close>

type_synonym flash = "pystr \<times> pystr"

type_synonym form = "pystr \<rightharpoonup> pystr"

definition form_get :: "form \<Rightarrow> pystr \<Rightarrow> pystr \<Rightarrow> pystr" where
  \<comment> \<open>\<open>request.form.get(key, default)\<close>\<close>
  "form_get f k d = (case f k of None \<Rightarrow> d | Some v \<Rightarrow> v)"

definition normalize_target :: "pystr \<Rightarrow> pystr" where
  \<comment> \<open>\<open>p.strip().upper().replace(" ", "")\<close>, line 111\<close>
  "normalize_target p = replace_space (upper (strip p))"

definition normalize_detected :: "pystr \<Rightarrow> pystr" where
  \<comment> \<open>\<open>d.upper().replace(" ", "")\<close>, line 173\<close>
  "normalize_detected d = replace_space (upper d)"

definition set_target :: "store \<Rightarrow> form \<Rightarrow> store \<times> response \<times> flash list" where
  "set_target st f =
     (let plate_numbers = strip (form_get f (py ''plate_number'') []);
          phone_number = strip (form_get f (py ''phone_number'') []);
          name = strip (form_get f (py ''name'') [])
      in if plate_numbers = [] \<or> phone_number = [] \<or> name = []
         then (st, Redirect (py ''login''),
               [(py ''Please enter the license plate numbers, phone number, and name.'',
                 py ''error'')])
         else
           (let targets = [normalize_target p. p \<leftarrow> split_on 44 plate_numbers, strip p \<noteq> []]
            in (\<lparr>TARGET_PLATE_NUMBERS = targets, RECIPIENT_NAME = name,
                 RECIPIENT_PHONE_NUMBER = phone_number\<rparr>,
                Redirect (py ''detect_license_plate''),
                [(py ''Target Plates: '' @ join (py '', '') targets @ py '' set for '' @ name
                    @ py ''.'',
                  py ''success'')])))"

definition login :: response where
  "login = Login_page"

definition detect_license_plate :: "store \<Rightarrow> response" where
  "detect_license_plate st = Detect_page (TARGET_PLATE_NUMBERS st) (RECIPIENT_NAME st)"


section \<open>The environment: libraries and services the program calls\<close>

text \<open>
  What is raised, with the class name and the message that \<open>str(e)\<close> gives. An
  \<open>Exception\<close> is an instance of the class \<open>Exception\<close> or of a subclass, which
  \<open>except Exception\<close> catches. A \<open>BaseException\<close> is an instance of
  \<open>BaseException\<close> that is not one of \<open>Exception\<close> (\<open>KeyboardInterrupt\<close>,
  \<open>SystemExit\<close>, \<open>GeneratorExit\<close>), which \<open>except Exception\<close> lets through.
\<close>

datatype exn = Exception pystr pystr | BaseException pystr pystr

fun is_Exception :: "exn \<Rightarrow> bool" where
  "is_Exception (Exception cls msg) = True"
| "is_Exception (BaseException cls msg) = False"

fun str_exn :: "exn \<Rightarrow> pystr" where
  "str_exn (Exception cls msg) = msg"
| "str_exn (BaseException cls msg) = msg"

text \<open>
  A contour as the detector sees it: what \<open>cv2.contourArea\<close>, \<open>cv2.approxPolyDP\<close>,
  \<open>cv2.boundingRect\<close> and \<open>pytesseract.image_to_string\<close> (on the thresholded crop of
  the bounding box) return for it.
\<close>

record contour =
  contourArea :: rat
  approx_len :: nat
  rect_w :: int
  rect_h :: int
  image_to_string :: pystr

text \<open>
  The reply of \<open>geocoder.ip('me')\<close>: the call (or reading an attribute) raises, or there
  is a result whose \<open>latlng\<close> is \<open>None\<close> or a list of numbers and whose \<open>city\<close> is
  \<open>None\<close> or a string.
\<close>

datatype geo_reply = Geo_raises exn | Geo_result "rat list option" "pystr option"

text \<open>What the handlers do besides returning: log lines and requests to the SMS gateway
  (account, token, to, from, body).\<close>

datatype effect =
    Log_warning pystr
  | Log_info pystr
  | Sms_request pystr pystr pystr pystr pystr

text \<open>
  Everything outside \<open>app.py\<close> is a parameter: the three credentials read from the
  environment at import, \<open>Client(sid, token).messages.create(to, from_, body)\<close> returning
  the \<open>sid\<close> of the message or raising, the reply of the geolocation service,
  \<open>base64.b64decode\<close>, the decoding of image bytes (PIL and the colour conversion, to a
  bitmap of type \<open>'img\<close>), the contours that OpenCV finds in a bitmap, and the text of
  a number in an f-string. The vision and OCR calls are taken to return.
\<close>

record 'img ext =
  ACCOUNT_SID :: pystr
  AUTH_TOKEN :: pystr
  FROM_PHONE :: pystr
  messages_create :: "pystr \<Rightarrow> pystr \<Rightarrow> pystr \<Rightarrow> pystr \<Rightarrow> pystr \<Rightarrow> exn + pystr"
  geocoder_ip :: geo_reply
  b64decode :: "pystr \<Rightarrow> exn + pystr"
  image_open :: "pystr \<Rightarrow> exn + 'img"
  find_contours :: "'img \<Rightarrow> contour list"
  str_num :: "rat \<Rightarrow> pystr"


section \<open>The notifier\<close>

definition send_sms :: "'img ext \<Rightarrow> pystr \<Rightarrow> pystr \<Rightarrow> (exn + pystr option) \<times> effect list" where
  "send_sms env message to_phone =
     (if \<not> (ACCOUNT_SID env \<noteq> [] \<and> AUTH_TOKEN env \<noteq> [] \<and> FROM_PHONE env \<noteq> [])
      then (Inr None, [Log_warning (py ''Twilio credentials are not set. Skipping SMS.'')])
      else
        (let request = Sms_request (ACCOUNT_SID env) (AUTH_TOKEN env) to_phone (FROM_PHONE env) message
         in case messages_create env (ACCOUNT_SID env) (AUTH_TOKEN env) to_phone (FROM_PHONE env) message of
              Inl e \<Rightarrow> (Inl e, [request])
            | Inr sid \<Rightarrow> (Inr (Some sid), [request, Log_info (py ''Message sent: '' @ sid)])))"

definition dispatches :: "effect list \<Rightarrow> effect list" where
  \<comment> \<open>the gateway requests among the effects\<close>
  "dispatches es = filter (\<lambda>e. case e of Sms_request a t p f b \<Rightarrow> True | _ \<Rightarrow> False) es"


section \<open>The plate candidate detector\<close>

fun scan_contours :: "contour list \<Rightarrow> pystr list \<Rightarrow> pystr list" where
  \<comment> \<open>the loop of lines 56 to 68, \<open>detected_plates\<close> as accumulator\<close>
  "scan_contours [] detected_plates = detected_plates"
| "scan_contours (c # cs) detected_plates =
     (if approx_len c = 4 then
        (if rect_w c < 50 \<or> rect_h c < 10 then scan_contours cs detected_plates
         else
           (let plate_text = strip (image_to_string c)
            in if plate_text \<noteq> [] then scan_contours cs (detected_plates @ [plate_text])
               else scan_contours cs detected_plates))
      else scan_contours cs detected_plates)"

fun unique_loop :: "pystr list \<Rightarrow> pystr list \<Rightarrow> pystr list" where
  \<comment> \<open>the loop of lines 71 to 73, \<open>detected_unique\<close> as accumulator\<close>
  "unique_loop [] detected_unique = detected_unique"
| "unique_loop (p # ps) detected_unique =
     (if p \<notin> set detected_unique then unique_loop ps (detected_unique @ [p])
      else unique_loop ps detected_unique)"

definition largest_contours :: "contour list \<Rightarrow> contour list" where
  \<comment> \<open>\<open>sorted(contours, key=cv2.contourArea, reverse=True)[:20]\<close>; the sort is stable\<close>
  "largest_contours cs = take 20 (sort_key (\<lambda>c. - contourArea c) cs)"

definition detect_license_plate_from_image :: "'img ext \<Rightarrow> 'img \<Rightarrow> pystr list" where
  "detect_license_plate_from_image env img =
     (let contours = largest_contours (find_contours env img);
          detected_plates = scan_contours contours []
      in unique_loop detected_plates [])"

text \<open>
  The texts in the order of discovery, written without the loop: the stripped OCR text of
  every retained contour that is a quadrilateral of sufficient size, when it is not empty.
\<close>

definition discovered :: "'img ext \<Rightarrow> 'img \<Rightarrow> pystr list" where
  "discovered env img =
     [strip (image_to_string c). c \<leftarrow> largest_contours (find_contours env img),
        approx_len c = 4, \<not> (rect_w c < 50 \<or> rect_h c < 10), strip (image_to_string c) \<noteq> []]"

definition first_index :: "'a list \<Rightarrow> 'a \<Rightarrow> nat" where
  \<comment> \<open>the position of the first occurrence\<close>
  "first_index xs x = length (takeWhile (\<lambda>y. y \<noteq> x) xs)"


section \<open>The location resolver\<close>

definition unknown_location :: "pyval \<times> pyval \<times> pyval" where
  "unknown_location = (PStr (py ''Unknown''), PStr (py ''Unknown''), PStr (py ''Unknown place''))"

definition locate :: "geo_reply \<Rightarrow> exn + pyval \<times> pyval \<times> pyval" where
  \<comment> \<open>the body of the \<open>try\<close>, lines 80 to 87\<close>
  "locate g =
     (case g of
        Geo_raises e \<Rightarrow> Inl e
      | Geo_result latlng city \<Rightarrow>
          (case latlng of
             None \<Rightarrow> Inr unknown_location
           | Some [] \<Rightarrow> Inr unknown_location
           | Some [la] \<Rightarrow> Inl (Exception (py ''IndexError'') (py ''list index out of range''))
           | Some (la # lo # rest) \<Rightarrow>
               Inr (PNum la, PNum lo,
                    (case city of
                       None \<Rightarrow> PStr (py ''Unknown place'')
                     | Some c \<Rightarrow> if c \<noteq> [] then PStr c else PStr (py ''Unknown place'')))))"

definition get_location :: "'img ext \<Rightarrow> exn + pyval \<times> pyval \<times> pyval" where
  \<comment> \<open>\<open>except Exception\<close> replaces an \<open>Exception\<close> of the body by the sentinel; anything
      else that is raised passes through\<close>
  "get_location env =
     (case locate (geocoder_ip env) of
        Inl e \<Rightarrow> if is_Exception e then Inr unknown_location else Inl e
      | Inr r \<Rightarrow> Inr r)"

definition no_coordinates :: "geo_reply \<Rightarrow> bool" where
  \<comment> \<open>the service raises an \<open>Exception\<close>, or returns no coordinate pair\<close>
  "no_coordinates g =
     (case g of
        Geo_raises e \<Rightarrow> is_Exception e
      | Geo_result latlng city \<Rightarrow> (case latlng of None \<Rightarrow> True | Some xs \<Rightarrow> length xs < 2))"

definition interrupted :: "geo_reply \<Rightarrow> bool" where
  \<comment> \<open>what is raised during the call is not an \<open>Exception\<close>\<close>
  "interrupted g = (case g of Geo_raises e \<Rightarrow> \<not> is_Exception e | Geo_result latlng city \<Rightarrow> False)"


section \<open>The upload handler\<close>

record file_storage =
  filename :: pystr
  content :: pystr

text \<open>A value read from a JSON body, as \<open>json.loads\<close> gives it.\<close>

datatype json =
    JNull
  | JBool bool
  | JInt int
  | JFloat rat
  | JStr pystr
  | JList "json list"
  | JDict "(pystr \<times> json) list"

fun truthy :: "json \<Rightarrow> bool" where
  "truthy JNull = False"
| "truthy (JBool b) = b"
| "truthy (JInt i) = (i \<noteq> 0)"
| "truthy (JFloat r) = (r \<noteq> 0)"
| "truthy (JStr s) = (s \<noteq> [])"
| "truthy (JList xs) = (xs \<noteq> [])"
| "truthy (JDict kvs) = (kvs \<noteq> [])"

fun type_name :: "json \<Rightarrow> pystr" where
  "type_name JNull = py ''NoneType''"
| "type_name (JBool b) = py ''bool''"
| "type_name (JInt i) = py ''int''"
| "type_name (JFloat r) = py ''float''"
| "type_name (JStr s) = py ''str''"
| "type_name (JList xs) = py ''list''"
| "type_name (JDict kvs) = py ''dict''"

definition no_attribute :: "json \<Rightarrow> string \<Rightarrow> exn" where
  \<comment> \<open>the \<open>AttributeError\<close> of a method call on a value that has no such method\<close>
  "no_attribute v name =
     Exception (py ''AttributeError'')
       ([39] @ type_name v @ [39] @ py '' object has no attribute '' @ [39] @ py name @ [39])"

definition dict_get :: "(pystr \<times> json) list \<Rightarrow> pystr \<Rightarrow> json" where
  \<comment> \<open>\<open>d.get(key)\<close>; of the members with the same name the last one counts\<close>
  "dict_get kvs k = (case map_of (rev kvs) k of None \<Rightarrow> JNull | Some v \<Rightarrow> v)"

text \<open>
  The JSON body of a request: \<open>request.json\<close> raises \<open>BadRequest\<close> (with the message
  given) when the body cannot be parsed, and gives the value otherwise.
\<close>

datatype json_body = Json_bad pystr | Json_value json

record request =
  files :: "pystr \<rightharpoonup> file_storage"
  form :: form
  is_json :: bool
  json :: json_body

definition read_image_from_base64 :: "'img ext \<Rightarrow> json \<Rightarrow> exn + 'img" where
  \<comment> \<open>a value that is not a string has no \<open>split\<close>; a string without a comma cannot be
      unpacked into \<open>header, encoded\<close>\<close>
  "read_image_from_base64 env data_url =
     (case data_url of
        JStr s \<Rightarrow>
          (if 44 \<notin> set s
           then Inl (Exception (py ''ValueError'')
                       (py ''not enough values to unpack (expected 2, got 1)''))
           else
             (let encoded = tl (dropWhile (\<lambda>c. c \<noteq> 44) s)
              in case b64decode env encoded of
                   Inl e \<Rightarrow> Inl e
                 | Inr data \<Rightarrow> image_open env data))
      | _ \<Rightarrow> Inl (no_attribute data_url ''split''))"

definition read_image_from_file_storage :: "'img ext \<Rightarrow> file_storage \<Rightarrow> exn + 'img" where
  "read_image_from_file_storage env file = image_open env (content file)"

definition image_data_of :: "request \<Rightarrow> exn + json" where
  \<comment> \<open>line 159; the conditional expression binds weaker than \<open>or\<close>:
      \<open>(form.get(..) or json.get(..)) if request.is_json else ''\<close>\<close>
  "image_data_of req =
     (if is_json req then
        (if form_get (form req) (py ''image_data'') [] \<noteq> []
         then Inr (JStr (form_get (form req) (py ''image_data'') []))
         else (case json req of
                 Json_bad msg \<Rightarrow> Inl (Exception (py ''BadRequest'') msg)
               | Json_value (JDict kvs) \<Rightarrow> Inr (dict_get kvs (py ''image_data''))
               | Json_value v \<Rightarrow> Inl (no_attribute v ''get'')))
      else Inr (JStr []))"

datatype 'img acquired = Got 'img | No_image | Rejected flash | Crashed exn

definition acquire_from_data :: "'img ext \<Rightarrow> request \<Rightarrow> 'img acquired" where
  \<comment> \<open>the \<open>else\<close> branch, lines 159 to 165\<close>
  "acquire_from_data env req =
     (case image_data_of req of
        Inl e \<Rightarrow> Crashed e
      | Inr image_data \<Rightarrow>
          (if truthy image_data then
             (case read_image_from_base64 env image_data of
                Inl e \<Rightarrow>
                  if is_Exception e
                  then Rejected (py ''Failed to decode image data: '' @ str_exn e, py ''error'')
                  else Crashed e
              | Inr img \<Rightarrow> Got img)
           else No_image))"

definition acquire_image :: "'img ext \<Rightarrow> request \<Rightarrow> 'img acquired" where
  \<comment> \<open>lines 150 to 165; the file is used when
      \<open>'image_file' in request.files and request.files['image_file'].filename\<close>\<close>
  "acquire_image env req =
     (case files req (py ''image_file'') of
        Some file \<Rightarrow>
          (if filename file \<noteq> [] then
             (case read_image_from_file_storage env file of
                Inl e \<Rightarrow>
                  if is_Exception e
                  then Rejected (py ''Failed to read uploaded image: '' @ str_exn e, py ''error'')
                  else Crashed e
              | Inr img \<Rightarrow> Got img)
           else acquire_from_data env req)
      | None \<Rightarrow> acquire_from_data env req)"

fun targets_loop :: "pystr list \<Rightarrow> pystr \<Rightarrow> pystr \<Rightarrow> pystr list \<Rightarrow> pystr list" where
  \<comment> \<open>the inner loop, lines 178 to 180, for one candidate \<open>d\<close> with normal form \<open>dn\<close>\<close>
  "targets_loop [] d dn matches = matches"
| "targets_loop (target # targets) d dn matches =
     (if target \<noteq> [] \<and> target = dn then targets_loop targets d dn (matches @ [d])
      else targets_loop targets d dn matches)"

fun match_loop :: "(pystr \<times> pystr) list \<Rightarrow> pystr list \<Rightarrow> pystr list \<Rightarrow> pystr list" where
  \<comment> \<open>the outer loop, line 177, over \<open>zip(detected, detected_norm)\<close>\<close>
  "match_loop [] targets matches = matches"
| "match_loop ((d, dn) # rest) targets matches =
     match_loop rest targets (targets_loop targets d dn matches)"

definition find_matches :: "pystr list \<Rightarrow> pystr list \<Rightarrow> pystr list" where
  \<comment> \<open>lines 173 to 180: \<open>matches\<close> for the target list and the detected candidates\<close>
  "find_matches targets detected =
     (let detected_norm = map normalize_detected detected
      in match_loop (zip detected detected_norm) targets [])"

text \<open>
  The match evaluator in the words of the specification: the candidates whose normal form
  equals some target, empty targets never matching, each occurrence once, in order.
\<close>

definition spec_matches :: "pystr list \<Rightarrow> pystr list \<Rightarrow> pystr list" where
  "spec_matches targets detected =
     filter (\<lambda>d. normalize_detected d \<noteq> [] \<and> normalize_detected d \<in> set targets) detected"

fun str_val :: "'img ext \<Rightarrow> pyval \<Rightarrow> pystr" where
  \<comment> \<open>how an f-string shows a value\<close>
  "str_val env PNone = py ''None''"
| "str_val env (PStr s) = s"
| "str_val env (PNum r) = str_num env r"

definition alert_message :: "'img ext \<Rightarrow> pystr list \<Rightarrow> pyval \<Rightarrow> pyval \<Rightarrow> pyval \<Rightarrow> pystr" where
  "alert_message env matches latitude longitude place_name =
     py ''Alert: Detected plate(s) '' @ join (py '', '') matches @ py '' at ''
       @ str_val env place_name @ py '' (lat: '' @ str_val env latitude @ py '', lon: ''
       @ str_val env longitude @ py '')''"

definition upload_image ::
  "'img ext \<Rightarrow> store \<Rightarrow> request \<Rightarrow> (exn + response) \<times> flash list \<times> effect list" where
  "upload_image env st req =
     (case acquire_image env req of
        Crashed e \<Rightarrow> (Inl e, [], [])
      | Rejected notice \<Rightarrow> (Inr (Redirect (py ''detect_license_plate'')), [notice], [])
      | No_image \<Rightarrow>
          (Inr (Redirect (py ''detect_license_plate'')),
           [(py ''No image received.'', py ''error'')], [])
      | Got img \<Rightarrow>
          (let detected = detect_license_plate_from_image env img;
               matches = find_matches (TARGET_PLATE_NUMBERS st) detected
           in case get_location env of
                Inl e \<Rightarrow> (Inl e, [], [])
              | Inr (latitude, longitude, place_name) \<Rightarrow>
                  (if matches \<noteq> [] \<and> RECIPIENT_PHONE_NUMBER st \<noteq> [] then
                     (case send_sms env (alert_message env matches latitude longitude place_name)
                             (RECIPIENT_PHONE_NUMBER st) of
                        (Inl e, effects) \<Rightarrow> (Inl e, [], effects)
                      | (Inr sms_sid, effects) \<Rightarrow>
                          (Inr (Result_page detected matches latitude longitude place_name sms_sid),
                           [(py ''Match found. Notification sent (if Twilio configured).'',
                             py ''success'')],
                           effects))
                   else if matches \<noteq> [] then
                     (Inr (Result_page detected matches latitude longitude place_name None),
                      [(py ''Match found but recipient phone not configured.'', py ''warning'')],
                      [])
                   else
                     (Inr (Result_page detected matches latitude longitude place_name None),
                      [(py ''No matching plates found.'', py ''info'')], []))))"


section \<open>Reachable stores\<close>






section \<open>Sample inputs\<close>

text \<open>
  Six contours: two read the same text, one is not a quadrilateral, one is too narrow and
  one reads only whitespace. The environment has its credentials set, a gateway that
  accepts every message and a geolocation service that is unreachable.
\<close>

definition sample_contours :: "contour list" where
  "sample_contours =
     [\<lparr>contourArea = 900, approx_len = 4, rect_w = 120, rect_h = 30,
        image_to_string = py ''XYZ999'' @ [10]\<rparr>,
      \<lparr>contourArea = 5000, approx_len = 4, rect_w = 200, rect_h = 50,
        image_to_string = py ''AB 12 CD'' @ [10]\<rparr>,
      \<lparr>contourArea = 700, approx_len = 4, rect_w = 100, rect_h = 25,
        image_to_string = py ''XYZ999''\<rparr>,
      \<lparr>contourArea = 6000, approx_len = 5, rect_w = 300, rect_h = 80,
        image_to_string = py ''NOPE''\<rparr>,
      \<lparr>contourArea = 300, approx_len = 4, rect_w = 40, rect_h = 30,
        image_to_string = py ''TINY''\<rparr>,
      \<lparr>contourArea = 200, approx_len = 4, rect_w = 60, rect_h = 12,
        image_to_string = py '' ''\<rparr>]"

definition sample_env :: "nat ext" where
  "sample_env =
     \<lparr>ACCOUNT_SID = py ''AC01'', AUTH_TOKEN = py ''secret'', FROM_PHONE = py ''+15550001111'',
      messages_create = (\<lambda>account token to_phone from_phone body. Inr (py ''SM01'')),
      geocoder_ip = Geo_raises (Exception (py ''ConnectionError'') (py ''unreachable'')),
      b64decode = (\<lambda>encoded. Inr encoded),
      image_open = (\<lambda>data. if data = []
                             then Inl (Exception (py ''UnidentifiedImageError'')
                                         (py ''cannot identify image file''))
                             else Inr (length data)),
      find_contours = (\<lambda>img. sample_contours),
      str_num = (\<lambda>r. py ''0.0'')\<rparr>"


section \<open>Facts about literals\<close>

lemma py_eq_iff: "py a = py b \<longleftrightarrow> a = b"
  by (simp add: py_def inj_map_eq_map [OF inj_of_char])

lemma py_Nil_iff: "py a = [] \<longleftrightarrow> a = []"
  by (simp add: py_def)

lemma py_append: "py a @ py b = py (a @ b)"
  by (simp add: py_def)


section \<open>Facts about the uppercase mapping\<close>

lemmas upper_block_defs = 
  upper_block_1_def upper_block_2_def upper_block_3_def upper_block_4_def
  upper_block_5_def upper_block_6_def upper_block_7_def upper_block_8_def
  upper_block_9_def upper_block_10_def upper_block_11_def upper_block_12_def
  upper_block_13_def upper_block_14_def upper_block_15_def upper_block_16_def
  upper_block_17_def upper_block_18_def upper_block_19_def upper_block_20_def
  upper_block_21_def upper_block_22_def upper_block_23_def upper_block_24_def
  upper_block_25_def upper_block_26_def upper_block_27_def upper_block_28_def
  upper_block_29_def upper_block_30_def upper_block_31_def upper_block_32_def
  upper_block_33_def upper_block_34_def upper_block_35_def upper_block_36_def
  upper_block_37_def upper_block_38_def upper_block_39_def upper_block_40_def
  upper_block_41_def upper_block_42_def upper_block_43_def upper_block_44_def
  upper_block_45_def upper_block_46_def upper_block_47_def upper_block_48_def

lemma upper_block_1_ok: "block_ok upper_block_1"
  by (simp add: block_ok_def upper_block_1_def entry_ok_def upper_entry_def is_space_def upper_block_defs)

lemma upper_block_2_ok: "block_ok upper_block_2"
  by (simp add: block_ok_def upper_block_2_def entry_ok_def upper_entry_def is_space_def upper_block_defs)

lemma upper_block_3_ok: "block_ok upper_block_3"
  by (simp add: block_ok_def upper_block_3_def entry_ok_def upper_entry_def is_space_def upper_block_defs)

lemma upper_block_4_ok: "block_ok upper_block_4"
  by (simp add: block_ok_def upper_block_4_def entry_ok_def upper_entry_def is_space_def upper_block_defs)

lemma upper_block_5_ok: "block_ok upper_block_5"
  by (simp add: block_ok_def upper_block_5_def entry_ok_def upper_entry_def is_space_def upper_block_defs)

lemma upper_block_6_ok: "block_ok upper_block_6"
  by (simp add: block_ok_def upper_block_6_def entry_ok_def upper_entry_def is_space_def upper_block_defs)

lemma upper_block_7_ok: "block_ok upper_block_7"
  by (simp add: block_ok_def upper_block_7_def entry_ok_def upper_entry_def is_space_def upper_block_defs)

lemma upper_block_8_ok: "block_ok upper_block_8"
  by (simp add: block_ok_def upper_block_8_def entry_ok_def upper_entry_def is_space_def upper_block_defs)

lemma upper_block_9_ok: "block_ok upper_block_9"
  by (simp add: block_ok_def upper_block_9_def entry_ok_def upper_entry_def is_space_def upper_block_defs)

lemma upper_block_10_ok: "block_ok upper_block_10"
  by (simp add: block_ok_def upper_block_10_def entry_ok_def upper_entry_def is_space_def upper_block_defs)

lemma upper_block_11_ok: "block_ok upper_block_11"
  by (simp add: block_ok_def upper_block_11_def entry_ok_def upper_entry_def is_space_def upper_block_defs)

lemma upper_block_12_ok: "block_ok upper_block_12"
  by (simp add: block_ok_def upper_block_12_def entry_ok_def upper_entry_def is_space_def upper_block_defs)

lemma upper_block_13_ok: "block_ok upper_block_13"
  by (simp add: block_ok_def upper_block_13_def entry_ok_def upper_entry_def is_space_def upper_block_defs)

lemma upper_block_14_ok: "block_ok upper_block_14"
  by (simp add: block_ok_def upper_block_14_def entry_ok_def upper_entry_def is_space_def upper_block_defs)

lemma upper_block_15_ok: "block_ok upper_block_15"
  by (simp add: block_ok_def upper_block_15_def entry_ok_def upper_entry_def is_space_def upper_block_defs)

lemma upper_block_16_ok: "block_ok upper_block_16"
  by (simp add: block_ok_def upper_block_16_def entry_ok_def upper_entry_def is_space_def upper_block_defs)

lemma upper_block_17_ok: "block_ok upper_block_17"
  by (simp add: block_ok_def upper_block_17_def entry_ok_def upper_entry_def is_space_def upper_block_defs)

lemma upper_block_18_ok: "block_ok upper_block_18"
  by (simp add: block_ok_def upper_block_18_def entry_ok_def upper_entry_def is_space_def upper_block_defs)

lemma upper_block_19_ok: "block_ok upper_block_19"
  by (simp add: block_ok_def upper_block_19_def entry_ok_def upper_entry_def is_space_def upper_block_defs)

lemma upper_block_20_ok: "block_ok upper_block_20"
  by (simp add: block_ok_def upper_block_20_def entry_ok_def upper_entry_def is_space_def upper_block_defs)

lemma upper_block_21_ok: "block_ok upper_block_21"
  by (simp add: block_ok_def upper_block_21_def entry_ok_def upper_entry_def is_space_def upper_block_defs)

lemma upper_block_22_ok: "block_ok upper_block_22"
  by (simp add: block_ok_def upper_block_22_def entry_ok_def upper_entry_def is_space_def upper_block_defs)

lemma upper_block_23_ok: "block_ok upper_block_23"
  by (simp add: block_ok_def upper_block_23_def entry_ok_def upper_entry_def is_space_def upper_block_defs)

lemma upper_block_24_ok: "block_ok upper_block_24"
  by (simp add: block_ok_def upper_block_24_def entry_ok_def upper_entry_def is_space_def upper_block_defs)

lemma upper_block_25_ok: "block_ok upper_block_25"
  by (simp add: block_ok_def upper_block_25_def entry_ok_def upper_entry_def is_space_def upper_block_defs)

lemma upper_block_26_ok: "block_ok upper_block_26"
  by (simp add: block_ok_def upper_block_26_def entry_ok_def upper_entry_def is_space_def upper_block_defs)

lemma upper_block_27_ok: "block_ok upper_block_27"
  by (simp add: block_ok_def upper_block_27_def entry_ok_def upper_entry_def is_space_def upper_block_defs)

lemma upper_block_28_ok: "block_ok upper_block_28"
  by (simp add: block_ok_def upper_block_28_def entry_ok_def upper_entry_def is_space_def upper_block_defs)

lemma upper_block_29_ok: "block_ok upper_block_29"
  by (simp add: block_ok_def upper_block_29_def entry_ok_def upper_entry_def is_space_def upper_block_defs)

lemma upper_block_30_ok: "block_ok upper_block_30"
  by (simp add: block_ok_def upper_block_30_def entry_ok_def upper_entry_def is_space_def upper_block_defs)

lemma upper_block_31_ok: "block_ok upper_block_31"
  by (simp add: block_ok_def upper_block_31_def entry_ok_def upper_entry_def is_space_def upper_block_defs)

lemma upper_block_32_ok: "block_ok upper_block_32"
  by (simp add: block_ok_def upper_block_32_def entry_ok_def upper_entry_def is_space_def upper_block_defs)

lemma upper_block_33_ok: "block_ok upper_block_33"
  by (simp add: block_ok_def upper_block_33_def entry_ok_def upper_entry_def is_space_def upper_block_defs)

lemma upper_block_34_ok: "block_ok upper_block_34"
  by (simp add: block_ok_def upper_block_34_def entry_ok_def upper_entry_def is_space_def upper_block_defs)

lemma upper_block_35_ok: "block_ok upper_block_35"
  by (simp add: block_ok_def upper_block_35_def entry_ok_def upper_entry_def is_space_def upper_block_defs)

lemma upper_block_36_ok: "block_ok upper_block_36"
  by (simp add: block_ok_def upper_block_36_def entry_ok_def upper_entry_def is_space_def upper_block_defs)

lemma upper_block_37_ok: "block_ok upper_block_37"
  by (simp add: block_ok_def upper_block_37_def entry_ok_def upper_entry_def is_space_def upper_block_defs)

lemma upper_block_38_ok: "block_ok upper_block_38"
  by (simp add: block_ok_def upper_block_38_def entry_ok_def upper_entry_def is_space_def upper_block_defs)

lemma upper_block_39_ok: "block_ok upper_block_39"
  by (simp add: block_ok_def upper_block_39_def entry_ok_def upper_entry_def is_space_def upper_block_defs)

lemma upper_block_40_ok: "block_ok upper_block_40"
  by (simp add: block_ok_def upper_block_40_def entry_ok_def upper_entry_def is_space_def upper_block_defs)

lemma upper_block_41_ok: "block_ok upper_block_41"
  by (simp add: block_ok_def upper_block_41_def entry_ok_def upper_entry_def is_space_def upper_block_defs)

lemma upper_block_42_ok: "block_ok upper_block_42"
  by (simp add: block_ok_def upper_block_42_def entry_ok_def upper_entry_def is_space_def upper_block_defs)

lemma upper_block_43_ok: "block_ok upper_block_43"
  by (simp add: block_ok_def upper_block_43_def entry_ok_def upper_entry_def is_space_def upper_block_defs)

lemma upper_block_44_ok: "block_ok upper_block_44"
  by (simp add: block_ok_def upper_block_44_def entry_ok_def upper_entry_def is_space_def upper_block_defs)

lemma upper_block_45_ok: "block_ok upper_block_45"
  by (simp add: block_ok_def upper_block_45_def entry_ok_def upper_entry_def is_space_def upper_block_defs)

lemma upper_block_46_ok: "block_ok upper_block_46"
  by (simp add: block_ok_def upper_block_46_def entry_ok_def upper_entry_def is_space_def upper_block_defs)

lemma upper_block_47_ok: "block_ok upper_block_47"
  by (simp add: block_ok_def upper_block_47_def entry_ok_def upper_entry_def is_space_def upper_block_defs)

lemma upper_block_48_ok: "block_ok upper_block_48"
  by (simp add: block_ok_def upper_block_48_def entry_ok_def upper_entry_def is_space_def upper_block_defs)

lemma block_entry: "map_of b c = Some v \<Longrightarrow> block_ok b \<Longrightarrow> entry_ok (c, v)"
  by (auto simp: block_ok_def list_all_iff dest: map_of_SomeD)

lemma upper_entry_ok:
  assumes "upper_entry c = Some v"
  shows "entry_ok (c, v)"
  using assms unfolding upper_entry_def
  by (auto split: if_splits elim!: block_entry
      simp: upper_block_1_ok upper_block_2_ok upper_block_3_ok upper_block_4_ok upper_block_5_ok
      upper_block_6_ok upper_block_7_ok upper_block_8_ok upper_block_9_ok upper_block_10_ok
      upper_block_11_ok upper_block_12_ok upper_block_13_ok upper_block_14_ok
      upper_block_15_ok upper_block_16_ok upper_block_17_ok upper_block_18_ok
      upper_block_19_ok upper_block_20_ok upper_block_21_ok upper_block_22_ok
      upper_block_23_ok upper_block_24_ok upper_block_25_ok upper_block_26_ok
      upper_block_27_ok upper_block_28_ok upper_block_29_ok upper_block_30_ok
      upper_block_31_ok upper_block_32_ok upper_block_33_ok upper_block_34_ok
      upper_block_35_ok upper_block_36_ok upper_block_37_ok upper_block_38_ok
      upper_block_39_ok upper_block_40_ok upper_block_41_ok upper_block_42_ok
      upper_block_43_ok upper_block_44_ok upper_block_45_ok upper_block_46_ok
      upper_block_47_ok upper_block_48_ok)

lemma upper_cp_nonempty: "upper_cp c \<noteq> []"
  using upper_entry_ok [of c]
  by (auto simp: upper_cp_def entry_ok_def split: option.splits)

lemma upper_cp_fixed: "d \<in> set (upper_cp c) \<Longrightarrow> upper_cp d = [d]"
  using upper_entry_ok [of c]
  by (auto simp: upper_cp_def entry_ok_def list_all_iff split: option.splits)

lemma upper_cp_is_space: "d \<in> set (upper_cp c) \<Longrightarrow> is_space d = is_space c"
  using upper_entry_ok [of c]
  by (auto simp: upper_cp_def entry_ok_def list_all_iff split: option.splits)

lemma upper_cp_of_space: "is_space c \<Longrightarrow> upper_cp c = [c]"
  using upper_entry_ok [of c]
  by (auto simp: upper_cp_def entry_ok_def split: option.splits)

lemma is_space_32: "is_space 32"
  by (simp add: is_space_def)

lemma upper_cp_32: "32 \<in> set (upper_cp c) \<longleftrightarrow> c = 32"
proof
  assume m: "32 \<in> set (upper_cp c)"
  then have "is_space c" using upper_cp_is_space [OF m] is_space_32 by simp
  then have "upper_cp c = [c]" by (rule upper_cp_of_space)
  with m show "c = 32" by simp
next
  assume "c = 32"
  then show "32 \<in> set (upper_cp c)" using upper_cp_of_space [OF is_space_32] by simp
qed

lemma upper_Nil: "upper [] = []"
  by (simp add: upper_def)

lemma upper_Cons: "upper (c # s) = upper_cp c @ upper s"
  by (simp add: upper_def)

lemma upper_append: "upper (s @ t) = upper s @ upper t"
  by (simp add: upper_def)

lemma upper_fixed_list: "(\<forall>d\<in>set v. upper_cp d = [d]) \<Longrightarrow> upper v = v"
  by (induction v) (simp_all add: upper_Nil upper_Cons)

lemma upper_idem: "upper (upper s) = upper s"
proof (induction s)
  case Nil
  then show ?case by (simp add: upper_Nil)
next
  case (Cons c s)
  have "upper (upper_cp c) = upper_cp c"
    by (rule upper_fixed_list) (simp add: upper_cp_fixed)
  with Cons show ?case by (simp add: upper_Cons upper_append)
qed

lemma upper_eq_Nil: "upper s = [] \<longleftrightarrow> s = []"
  by (cases s) (simp_all add: upper_Nil upper_Cons upper_cp_nonempty)

lemma replace_space_append: "replace_space (s @ t) = replace_space s @ replace_space t"
  by (simp add: replace_space_def)

lemma replace_space_upper_cp:
  "replace_space (upper_cp c) = (if c = 32 then [] else upper_cp c)"
proof (cases "c = 32")
  case True
  then show ?thesis using upper_cp_of_space [OF is_space_32] by (simp add: replace_space_def)
next
  case False
  then have "32 \<notin> set (upper_cp c)" by (simp add: upper_cp_32)
  then have "filter (\<lambda>d. d \<noteq> 32) (upper_cp c) = upper_cp c"
    by (intro filter_True) auto
  with False show ?thesis by (simp add: replace_space_def)
qed

lemma upper_replace_space: "upper (replace_space s) = replace_space (upper s)"
proof (induction s)
  case Nil
  then show ?case by (simp add: replace_space_def upper_Nil)
next
  case (Cons c s)
  have "replace_space (c # s) = (if c = 32 then replace_space s else c # replace_space s)"
    by (simp add: replace_space_def)
  with Cons show ?case
    by (simp add: upper_Cons replace_space_append replace_space_upper_cp)
qed

lemma replace_space_idem: "replace_space (replace_space s) = replace_space s"
  by (simp add: replace_space_def)

lemma replace_space_upper_twice:
  "replace_space (upper (replace_space (upper s))) = replace_space (upper s)"
  by (simp add: upper_replace_space upper_idem replace_space_idem)


section \<open>Facts about \<open>strip\<close>\<close>

lemma dropWhile_all_space:
  "(\<forall>x\<in>set (dropWhile is_space s). is_space x) \<longleftrightarrow> dropWhile is_space s = []"
proof
  assume all: "\<forall>x\<in>set (dropWhile is_space s). is_space x"
  show "dropWhile is_space s = []"
  proof (rule ccontr)
    assume ne: "dropWhile is_space s \<noteq> []"
    then have "hd (dropWhile is_space s) \<in> set (dropWhile is_space s)" by (rule hd_in_set)
    with all have "is_space (hd (dropWhile is_space s))" by blast
    with hd_dropWhile [OF ne] show False by blast
  qed
next
  assume "dropWhile is_space s = []"
  then show "\<forall>x\<in>set (dropWhile is_space s). is_space x" by (simp only: set_simps ball_empty)
qed

lemma strip_empty_iff: "strip s = [] \<longleftrightarrow> blank s"
proof -
  have "strip s = [] \<longleftrightarrow> (\<forall>x\<in>set (dropWhile is_space s). is_space x)"
    by (simp add: strip_def)
  also have "\<dots> \<longleftrightarrow> dropWhile is_space s = []" by (rule dropWhile_all_space)
  also have "\<dots> \<longleftrightarrow> blank s" by (simp add: blank_def)
  finally show ?thesis .
qed

lemma stripped_iff:
  "stripped s \<longleftrightarrow> dropWhile is_space s = s \<and> dropWhile is_space (rev s) = rev s"
  unfolding stripped_def dropWhile_eq_self_iff hd_rev by auto

lemma last_dropWhile: "dropWhile P xs \<noteq> [] \<Longrightarrow> last (dropWhile P xs) = last xs"
  by (induct xs) auto

lemma stripped_strip: "stripped (strip s)"
proof (cases "strip s = []")
  case True
  then show ?thesis by (simp add: stripped_def)
next
  case False
  let ?a = "dropWhile is_space s"
  let ?b = "dropWhile is_space (rev ?a)"
  from False have b: "?b \<noteq> []" unfolding strip_def by (simp only: rev_is_Nil_conv not_False_eq_True)
  have a: "?a \<noteq> []"
  proof
    assume "?a = []"
    then have "?b = []" by (simp only: rev.simps dropWhile.simps)
    with b show False by blast
  qed
  have "last (strip s) = hd ?b" by (simp only: strip_def last_rev)
  with hd_dropWhile [OF b] have l: "\<not> is_space (last (strip s))" by simp
  have "hd (strip s) = last ?b" by (simp only: strip_def hd_rev)
  also have "\<dots> = last (rev ?a)" by (rule last_dropWhile [OF b])
  also have "\<dots> = hd ?a" by (rule last_rev)
  finally have h: "\<not> is_space (hd (strip s))" using hd_dropWhile [OF a] by simp
  from h l show ?thesis by (simp add: stripped_def)
qed

lemma strip_stripped: "stripped s \<Longrightarrow> strip s = s"
  by (simp add: stripped_iff strip_def)

lemma strip_idem: "strip (strip s) = strip s"
  by (rule strip_stripped [OF stripped_strip])

lemma hd_upper: "s \<noteq> [] \<Longrightarrow> hd (upper s) \<in> set (upper_cp (hd s))"
  by (cases s) (simp_all add: upper_Cons upper_cp_nonempty)

lemma last_upper: "s \<noteq> [] \<Longrightarrow> last (upper s) \<in> set (upper_cp (last s))"
proof (induction s)
  case Nil
  then show ?case by simp
next
  case (Cons c s)
  show ?case
  proof (cases "s = []")
    case True
    then show ?thesis by (simp add: upper_Cons upper_Nil upper_cp_nonempty)
  next
    case False
    then have "upper s \<noteq> []" by (simp add: upper_eq_Nil)
    with False Cons.IH show ?thesis by (simp add: upper_Cons)
  qed
qed

lemma stripped_upper:
  assumes "stripped s"
  shows "stripped (upper s)"
proof (cases "s = []")
  case True
  then show ?thesis by (simp add: upper_Nil stripped_def)
next
  case False
  with assms have "\<not> is_space (hd s)" "\<not> is_space (last s)" by (auto simp: stripped_def)
  then have "\<not> is_space (hd (upper s))" "\<not> is_space (last (upper s))"
    using upper_cp_is_space [OF hd_upper [OF False]] upper_cp_is_space [OF last_upper [OF False]]
    by simp_all
  then show ?thesis by (simp add: stripped_def)
qed

lemma last_filter_keep: "xs \<noteq> [] \<Longrightarrow> P (last xs) \<Longrightarrow> last (filter P xs) = last xs"
proof (induct xs)
  case Nil
  then show ?case by simp
next
  case (Cons x xs)
  show ?case
  proof (cases "xs = []")
    case True
    with Cons.prems show ?thesis by simp
  next
    case False
    with Cons.prems have p: "P (last xs)" by simp
    from False have "last xs \<in> set xs" by simp
    with p have "filter P xs \<noteq> []" by (auto simp: filter_empty_conv)
    with False Cons.hyps p show ?thesis by simp
  qed
qed

lemma stripped_replace_space:
  assumes "stripped s"
  shows "stripped (replace_space s)"
proof (cases "replace_space s = []")
  case True
  then show ?thesis by (simp add: stripped_def)
next
  case False
  then have ne: "s \<noteq> []" by (auto simp: replace_space_def)
  with assms have h: "\<not> is_space (hd s)" and l: "\<not> is_space (last s)"
    by (auto simp: stripped_def)
  from h have h': "hd s \<noteq> 32" using is_space_32 by auto
  from l have l': "last s \<noteq> 32" using is_space_32 by auto
  from ne h' have "hd (replace_space s) = hd s"
    by (cases s) (auto simp: replace_space_def)
  moreover from ne l' have "last (replace_space s) = last s"
    unfolding replace_space_def by (rule last_filter_keep)
  ultimately show ?thesis using h l by (simp add: stripped_def)
qed


section \<open>Normalisation is idempotent\<close>

lemma stripped_normalize_target: "stripped (normalize_target p)"
  by (simp add: normalize_target_def stripped_replace_space stripped_upper stripped_strip)


text \<open>
  Claim C9. The normalisation applied to the detected candidates (\<open>str.upper()\<close>, then
  every space removed) and the one applied to the configured targets (the same after a
  strip) are both idempotent: normalising a normalised string changes nothing. This holds
  for every string of code points, with the full uppercase mapping.
\<close>

theorem normalization_idempotent:
  "normalize_detected (normalize_detected s) = normalize_detected s \<and>
   normalize_target (normalize_target s) = normalize_target s"
proof
  show "normalize_detected (normalize_detected s) = normalize_detected s"
    by (simp add: normalize_detected_def replace_space_upper_twice)
next
  have "strip (normalize_target s) = normalize_target s"
    by (rule strip_stripped [OF stripped_normalize_target])
  then show "normalize_target (normalize_target s) = normalize_target s"
    using replace_space_upper_twice [of "strip s"]
    by (simp add: normalize_target_def)
qed

text \<open>The mapping at work beyond ASCII: \<open>stra\<close>, U+00DF, \<open>e 1\<close> becomes \<open>STRASSE1\<close>.\<close>

lemma normalize_detected_sharp_s:
  "normalize_detected [115, 116, 114, 97, 223, 101, 32, 49] = py ''STRASSE1''"
  by (simp add: normalize_detected_def upper_def upper_cp_def upper_entry_def upper_block_defs
      replace_space_def py_def)


section \<open>Configuration submissions\<close>

lemma no_targets:
  "\<forall>p\<in>set xs. strip p = [] \<Longrightarrow> [normalize_target p. p \<leftarrow> xs, strip p \<noteq> []] = []"
  by (induction xs) auto

text \<open>
  Claim C5. A \<open>set_target\<close> submission in which one of the three form fields
  (\<open>plate_number\<close>, \<open>phone_number\<close>, \<open>name\<close>) is missing, empty or whitespace only
  leaves the three globals as they were, flashes the validation notice in the category
  \<open>error\<close> and redirects to the configuration form.
\<close>

theorem set_target_rejects_blank:
  assumes "blank (form_get f (py ''plate_number'') []) \<or> blank (form_get f (py ''phone_number'') [])
           \<or> blank (form_get f (py ''name'') [])"
  shows "set_target st f =
           (st, Redirect (py ''login''),
            [(py ''Please enter the license plate numbers, phone number, and name.'',
              py ''error'')])"
  using assms by (auto simp add: set_target_def strip_empty_iff Let_def)

theorem set_target_rejects_blank_witness:
  "blank (form_get [py ''plate_number'' \<mapsto> py ''ABC123'', py ''phone_number'' \<mapsto> py ''   '',
                    py ''name'' \<mapsto> py ''Jane'']
            (py ''phone_number'') [])
   \<and> set_target \<lparr>TARGET_PLATE_NUMBERS = [py ''XYZ999''], RECIPIENT_NAME = py ''Bob'',
                  RECIPIENT_PHONE_NUMBER = py ''+15550000000''\<rparr>
        [py ''plate_number'' \<mapsto> py ''ABC123'', py ''phone_number'' \<mapsto> py ''   '',
         py ''name'' \<mapsto> py ''Jane'']
      = (\<lparr>TARGET_PLATE_NUMBERS = [py ''XYZ999''], RECIPIENT_NAME = py ''Bob'',
           RECIPIENT_PHONE_NUMBER = py ''+15550000000''\<rparr>, Redirect (py ''login''),
         [(py ''Please enter the license plate numbers, phone number, and name.'',
           py ''error'')])"
proof -
  let ?f = "[py ''plate_number'' \<mapsto> py ''ABC123'', py ''phone_number'' \<mapsto> py ''   '',
             py ''name'' \<mapsto> py ''Jane'']"
  have b: "blank (form_get ?f (py ''phone_number'') [])"
    by (simp add: blank_def form_get_def is_space_def py_def)
  then have "blank (form_get ?f (py ''plate_number'') []) \<or> blank (form_get ?f (py ''phone_number'') [])
           \<or> blank (form_get ?f (py ''name'') [])"
    by (intro disjI2 disjI1)
  from b set_target_rejects_blank [OF this] show ?thesis by (rule conjI)
qed

text \<open>
  Claim C10. When \<open>plate_number\<close> is not blank but each of the entries between its commas
  is (a lone comma, for instance), and \<open>phone_number\<close> and \<open>name\<close> are not blank, the
  submission passes validation: the target list becomes empty, the recipient fields are
  overwritten with the stripped values, the success notice is flashed and the request
  redirects to the detection page.
\<close>

theorem set_target_only_separators:
  assumes "\<not> blank (form_get f (py ''plate_number'') [])"
    and "\<forall>p\<in>set (split_on 44 (strip (form_get f (py ''plate_number'') []))). blank p"
    and "\<not> blank (form_get f (py ''phone_number'') [])"
    and "\<not> blank (form_get f (py ''name'') [])"
  shows "set_target st f =
           (\<lparr>TARGET_PLATE_NUMBERS = [],
              RECIPIENT_NAME = strip (form_get f (py ''name'') []),
              RECIPIENT_PHONE_NUMBER = strip (form_get f (py ''phone_number'') [])\<rparr>,
            Redirect (py ''detect_license_plate''),
            [(py ''Target Plates:  set for '' @ strip (form_get f (py ''name'') []) @ py ''.'',
              py ''success'')])"
proof -
  from assms(2)
  have "\<forall>p\<in>set (split_on 44 (strip (form_get f (py ''plate_number'') []))). strip p = []"
    by (simp add: strip_empty_iff)
  then have none:
    "[normalize_target p. p \<leftarrow> split_on 44 (strip (form_get f (py ''plate_number'') [])),
        strip p \<noteq> []] = []"
    by (rule no_targets)
  have j: "py ''Target Plates: '' @ join (py '', '') [] @ py '' set for '' = py ''Target Plates:  set for ''"
    by (simp add: py_def)
  show ?thesis
    unfolding set_target_def Let_def none
    using assms(1,3,4) j by (simp add: strip_empty_iff)
qed

theorem set_target_only_separators_witness:
  "\<not> blank (form_get [py ''plate_number'' \<mapsto> py '','', py ''phone_number'' \<mapsto> py ''+15551234567'',
                      py ''name'' \<mapsto> py ''Jane''] (py ''plate_number'') [])
   \<and> set_target \<lparr>TARGET_PLATE_NUMBERS = [py ''XYZ999''], RECIPIENT_NAME = py ''Bob'',
                  RECIPIENT_PHONE_NUMBER = py ''+15550000000''\<rparr>
        [py ''plate_number'' \<mapsto> py '','', py ''phone_number'' \<mapsto> py ''+15551234567'',
         py ''name'' \<mapsto> py ''Jane'']
      = (\<lparr>TARGET_PLATE_NUMBERS = [], RECIPIENT_NAME = py ''Jane'',
           RECIPIENT_PHONE_NUMBER = py ''+15551234567''\<rparr>,
         Redirect (py ''detect_license_plate''),
         [(py ''Target Plates:  set for Jane.'', py ''success'')])"
proof -
  let ?f = "[py ''plate_number'' \<mapsto> py '','', py ''phone_number'' \<mapsto> py ''+15551234567'',
             py ''name'' \<mapsto> py ''Jane'']"
  have 1: "\<not> blank (form_get ?f (py ''plate_number'') [])"
    by (simp add: blank_def form_get_def is_space_def py_def)
  have 2: "\<forall>p\<in>set (split_on 44 (strip (form_get ?f (py ''plate_number'') []))). blank p"
    by (simp add: blank_def form_get_def is_space_def py_def strip_def)
  have 3: "\<not> blank (form_get ?f (py ''phone_number'') [])"
    by (simp add: blank_def form_get_def is_space_def py_def)
  have 4: "\<not> blank (form_get ?f (py ''name'') [])"
    by (simp add: blank_def form_get_def is_space_def py_def)
  have n: "strip (form_get ?f (py ''name'') []) = py ''Jane''"
    by (simp add: form_get_def is_space_def py_def strip_def)
  have p: "strip (form_get ?f (py ''phone_number'') []) = py ''+15551234567''"
    by (simp add: form_get_def is_space_def py_def strip_def)
  have m: "py ''Target Plates:  set for '' @ py ''Jane'' @ py ''.'' = py ''Target Plates:  set for Jane.''"
    by (simp add: py_def)
  from 1 set_target_only_separators [OF 1 2 3 4] show ?thesis
    unfolding n p m by (rule conjI)
qed


section \<open>The plate candidate detector\<close>

lemma scan_contours_eq:
  "scan_contours cs acc =
     acc @ [strip (image_to_string c). c \<leftarrow> cs, approx_len c = 4,
              \<not> (rect_w c < 50 \<or> rect_h c < 10), strip (image_to_string c) \<noteq> []]"
  by (induction cs arbitrary: acc) (auto simp: Let_def)

lemma scan_discovered:
  "scan_contours (largest_contours (find_contours env img)) [] = discovered env img"
  by (simp add: scan_contours_eq discovered_def)

lemma set_unique_loop: "set (unique_loop ps acc) = set acc \<union> set ps"
  by (induction ps arbitrary: acc) auto

lemma distinct_unique_loop: "distinct acc \<Longrightarrow> distinct (unique_loop ps acc)"
  by (induction ps arbitrary: acc) auto

lemma first_index_append: "x \<in> set xs \<Longrightarrow> first_index (xs @ ys) x = first_index xs x"
  by (simp add: first_index_def takeWhile_append1)

lemma first_index_less: "x \<in> set xs \<Longrightarrow> first_index xs x < length xs"
  unfolding first_index_def by (induction xs) auto

lemma first_index_new: "x \<notin> set xs \<Longrightarrow> first_index (xs @ x # ys) x = length xs"
  unfolding first_index_def by (induction xs) auto

lemma unique_loop_order:
  assumes "set acc = set seen"
    and "sorted_wrt (\<lambda>x y. first_index seen x < first_index seen y) acc"
  shows "sorted_wrt (\<lambda>x y. first_index (seen @ ps) x < first_index (seen @ ps) y)
           (unique_loop ps acc)"
  using assms
proof (induction ps arbitrary: acc seen)
  case Nil
  then show ?case by simp
next
  case (Cons p ps)
  have keep: "sorted_wrt (\<lambda>x y. first_index (seen @ [p]) x < first_index (seen @ [p]) y) acc"
  proof (rule sorted_wrt_mono_rel [OF _ Cons.prems(2)])
    fix x y
    assume "x \<in> set acc" "y \<in> set acc" "first_index seen x < first_index seen y"
    then show "first_index (seen @ [p]) x < first_index (seen @ [p]) y"
      using Cons.prems(1) by (simp add: first_index_append)
  qed
  show ?case
  proof (cases "p \<in> set acc")
    case True
    with Cons.prems have s: "set acc = set (seen @ [p])" by auto
    from Cons.IH [OF s keep] True show ?thesis by simp
  next
    case False
    with Cons.prems have new: "p \<notin> set seen" by simp
    have s: "set (acc @ [p]) = set (seen @ [p])" using Cons.prems by simp
    have "\<forall>x\<in>set acc. first_index (seen @ [p]) x < first_index (seen @ [p]) p"
      using Cons.prems(1) new by (simp add: first_index_append first_index_new first_index_less)
    with keep
    have "sorted_wrt (\<lambda>x y. first_index (seen @ [p]) x < first_index (seen @ [p]) y) (acc @ [p])"
      by (simp add: sorted_wrt_append)
    from Cons.IH [OF s this] False show ?thesis by simp
  qed
qed

lemma discovered_texts: "t \<in> set (discovered env img) \<Longrightarrow> t \<noteq> [] \<and> strip t = t"
  by (auto simp: discovered_def strip_idem)


lemma sample_detected:
  "detect_license_plate_from_image (sample_env\<lparr>messages_create := g\<rparr>) img
     = [py ''AB 12 CD'', py ''XYZ999'']"
  by (simp add: detect_license_plate_from_image_def sample_env_def sample_contours_def
      largest_contours_def strip_def is_space_def Let_def py_def)

text \<open>
  Claim C6. For every bitmap and every OCR result, the list that
  \<open>detect_license_plate_from_image\<close> returns holds only strings that are not empty and
  are stripped of surrounding whitespace, holds no string twice, holds exactly the texts
  discovered, and lists them in the order of their first discovery.
\<close>

theorem detected_distinct_in_order:
  "(\<forall>t\<in>set (detect_license_plate_from_image env img). t \<noteq> [] \<and> strip t = t)
   \<and> distinct (detect_license_plate_from_image env img)
   \<and> set (detect_license_plate_from_image env img) = set (discovered env img)
   \<and> sorted_wrt (\<lambda>x y. first_index (discovered env img) x < first_index (discovered env img) y)
        (detect_license_plate_from_image env img)"
proof -
  have d: "detect_license_plate_from_image env img = unique_loop (discovered env img) []"
    by (simp add: detect_license_plate_from_image_def Let_def scan_discovered)
  have 1: "set (detect_license_plate_from_image env img) = set (discovered env img)"
    by (simp add: d set_unique_loop)
  have 2: "distinct (detect_license_plate_from_image env img)"
    by (simp add: d distinct_unique_loop)
  have 3: "sorted_wrt (\<lambda>x y. first_index (discovered env img) x < first_index (discovered env img) y)
        (detect_license_plate_from_image env img)"
    using unique_loop_order [of "[]" "[]" "discovered env img"] by (simp add: d)
  have 4: "\<forall>t\<in>set (detect_license_plate_from_image env img). t \<noteq> [] \<and> strip t = t"
    unfolding 1 by (rule ballI) (rule discovered_texts)
  show ?thesis by (intro conjI) (rule 4, rule 2, rule 1, rule 3)
qed

theorem detected_distinct_in_order_witness:
  "detect_license_plate_from_image sample_env 1 = [py ''AB 12 CD'', py ''XYZ999'']
   \<and> distinct (detect_license_plate_from_image sample_env 1)
   \<and> set (detect_license_plate_from_image sample_env 1) = set (discovered sample_env 1)"
proof -
  have e: "detect_license_plate_from_image sample_env 1 = [py ''AB 12 CD'', py ''XYZ999'']"
    by (simp add: detect_license_plate_from_image_def sample_env_def sample_contours_def
        largest_contours_def strip_def is_space_def Let_def py_def)
  from detected_distinct_in_order [of sample_env 1]
  have "distinct (detect_license_plate_from_image sample_env 1)
        \<and> set (detect_license_plate_from_image sample_env 1) = set (discovered sample_env 1)"
    by (elim conjE) (rule conjI)
  with e show ?thesis by (rule conjI)
qed


section \<open>The stored targets\<close>








text \<open>An entry beyond ASCII: \<open>caf\<close>, U+00E9, space, \<open>1\<close> is stored with U+00C9.\<close>

lemma normalize_target_e_acute:
  "normalize_target [99, 97, 102, 233, 32, 49] = [67, 65, 70, 201, 49]"
  by (simp add: normalize_target_def strip_def is_space_def upper_def upper_cp_def
      upper_entry_def upper_block_defs replace_space_def)





section \<open>The match evaluator\<close>

lemma targets_loop_eq:
  "targets_loop targets d dn matches =
     matches @ replicate (length (filter (\<lambda>t. t \<noteq> [] \<and> t = dn) targets)) d"
  by (induction targets arbitrary: matches) (auto simp: replicate_append_same)

lemma match_loop_eq:
  "match_loop (zip detected (map f detected)) targets matches =
     matches @ concat (map (\<lambda>d. replicate (length (filter (\<lambda>t. t \<noteq> [] \<and> t = f d) targets)) d)
                         detected)"
  by (induction detected arbitrary: matches) (simp_all add: targets_loop_eq)

lemma find_matches_eq:
  "find_matches targets detected =
     concat (map (\<lambda>d. replicate
                         (length (filter (\<lambda>t. t \<noteq> [] \<and> t = normalize_detected d) targets)) d)
                 detected)"
  by (simp add: find_matches_def match_loop_eq)

lemma distinct_count:
  "distinct ts \<Longrightarrow> length (filter (\<lambda>t. t \<noteq> [] \<and> t = dn) ts) = (if dn \<noteq> [] \<and> dn \<in> set ts then 1 else 0)"
  by (induction ts) auto

lemma concat_replicate_filter:
  "concat (map (\<lambda>d. replicate (if P d then 1 else 0) d) ds) = filter P ds"
  by (induction ds) auto

lemma count_pos:
  "0 < length (filter (\<lambda>t. t \<noteq> [] \<and> t = dn) ts) \<longleftrightarrow> dn \<noteq> [] \<and> dn \<in> set ts"
  by (induction ts) auto

lemma normalize_detected_samples:
  "normalize_detected (py ''AB 12 CD'') = py ''AB12CD''"
  "normalize_detected (py ''QQQ000'') = py ''QQQ000''"
  "normalize_detected (py ''XYZ999'') = py ''XYZ999''"
  "normalize_detected (py ''ABC123'') = py ''ABC123''"
  by (simp_all add: normalize_detected_def upper_def upper_cp_def upper_entry_def
      upper_block_1_def replace_space_def py_def)

text \<open>
  Claim C4, as amended. For every target list and every candidate sequence, the match
  evaluator returns original (not normalised) candidates only, in the order of the
  candidates, each candidate once for every entry of the target list that is not empty
  and equals its normal form. So the strings returned are exactly the candidates whose
  normal form equals some non-empty target, empty targets never match, and when the
  target list has no duplicate entry each matching candidate occurrence appears once.
\<close>

theorem find_matches_multiplicity:
  "find_matches targets detected =
     concat (map (\<lambda>d. replicate
                         (length (filter (\<lambda>t. t \<noteq> [] \<and> t = normalize_detected d) targets)) d)
                 detected)
   \<and> set (find_matches targets detected) = set (spec_matches targets detected)
   \<and> (distinct targets \<longrightarrow> find_matches targets detected = spec_matches targets detected)"
proof (intro conjI impI)
  show "find_matches targets detected =
     concat (map (\<lambda>d. replicate
                         (length (filter (\<lambda>t. t \<noteq> [] \<and> t = normalize_detected d) targets)) d)
                 detected)"
    by (rule find_matches_eq)
next
  show "set (find_matches targets detected) = set (spec_matches targets detected)"
    unfolding find_matches_eq spec_matches_def
    using count_pos [of _ targets] by (auto simp: set_replicate_conv_if split: if_splits)
next
  assume "distinct targets"
  then show "find_matches targets detected = spec_matches targets detected"
    unfolding find_matches_eq spec_matches_def
    by (simp add: distinct_count concat_replicate_filter)
qed

theorem find_matches_multiplicity_witness:
  "distinct [py ''AB12CD'', py ''XYZ999'']
   \<and> find_matches [py ''AB12CD'', py ''XYZ999''] [py ''AB 12 CD'', py ''QQQ000'', py ''XYZ999'']
       = [py ''AB 12 CD'', py ''XYZ999'']
   \<and> spec_matches [py ''AB12CD'', py ''XYZ999''] [py ''AB 12 CD'', py ''QQQ000'', py ''XYZ999'']
       = [py ''AB 12 CD'', py ''XYZ999'']"
proof -
  let ?T = "[py ''AB12CD'', py ''XYZ999'']"
  let ?D = "[py ''AB 12 CD'', py ''QQQ000'', py ''XYZ999'']"
  have d: "distinct ?T" by (simp add: py_eq_iff)
  have s: "spec_matches ?T ?D = [py ''AB 12 CD'', py ''XYZ999'']"
    by (simp add: spec_matches_def normalize_detected_samples py_eq_iff py_Nil_iff)
  have "distinct ?T \<longrightarrow> find_matches ?T ?D = spec_matches ?T ?D"
    using find_matches_multiplicity [of ?T ?D] by (elim conjE)
  from this d have "find_matches ?T ?D = spec_matches ?T ?D" by (rule mp)
  then have f: "find_matches ?T ?D = [py ''AB 12 CD'', py ''XYZ999'']" by (simp only: s)
  show ?thesis by (intro conjI) (rule d, rule f, rule s)
qed

text \<open>
  The claim as stated fails: \<open>set_target\<close> keeps duplicate entries, and a candidate
  matching a target that is listed twice is returned twice.
\<close>

theorem duplicate_target_duplicates_match:
  "TARGET_PLATE_NUMBERS (fst (set_target initial_store
       [py ''plate_number'' \<mapsto> py ''ABC123, abc 123'', py ''phone_number'' \<mapsto> py ''+15551234567'',
        py ''name'' \<mapsto> py ''Jane'']))
     = [py ''ABC123'', py ''ABC123'']
   \<and> find_matches [py ''ABC123'', py ''ABC123''] [py ''ABC123''] = [py ''ABC123'', py ''ABC123'']
   \<and> spec_matches [py ''ABC123'', py ''ABC123''] [py ''ABC123''] = [py ''ABC123'']"
proof (intro conjI)
  show "TARGET_PLATE_NUMBERS (fst (set_target initial_store
       [py ''plate_number'' \<mapsto> py ''ABC123, abc 123'', py ''phone_number'' \<mapsto> py ''+15551234567'',
        py ''name'' \<mapsto> py ''Jane'']))
     = [py ''ABC123'', py ''ABC123'']"
    by (simp add: set_target_def form_get_def strip_def is_space_def normalize_target_def
        upper_def upper_cp_def upper_entry_def upper_block_1_def replace_space_def py_def)
  show "find_matches [py ''ABC123'', py ''ABC123''] [py ''ABC123''] = [py ''ABC123'', py ''ABC123'']"
    by (simp add: find_matches_def normalize_detected_samples py_Nil_iff)
  show "spec_matches [py ''ABC123'', py ''ABC123''] [py ''ABC123''] = [py ''ABC123'']"
    by (simp add: spec_matches_def normalize_detected_samples py_Nil_iff)
qed


section \<open>The location resolver\<close>

text \<open>
  Claim C7, as amended. Whenever the geolocation service returns, or raises an exception
  that is an \<open>Exception\<close>, \<open>get_location\<close> returns and does not raise; the three
  components are populated (none is \<open>None\<close>, the place name is a non-empty string); when
  the service raises such an exception or gives no coordinate pair the result is the
  sentinel \<open>("Unknown", "Unknown", "Unknown place")\<close>. What is raised during the call and
  is not an \<open>Exception\<close> (\<open>KeyboardInterrupt\<close>, \<open>SystemExit\<close>, \<open>GeneratorExit\<close>) is not
  caught by \<open>except Exception\<close> and reaches the caller.
\<close>

theorem get_location_total:
  "(\<not> interrupted (geocoder_ip env) \<longrightarrow>
      (\<exists>la lo pl. get_location env = Inr (la, lo, PStr pl) \<and> la \<noteq> PNone \<and> lo \<noteq> PNone \<and> pl \<noteq> []))
   \<and> (no_coordinates (geocoder_ip env) \<longrightarrow> get_location env = Inr unknown_location)
   \<and> (\<forall>e. geocoder_ip env = Geo_raises e \<and> \<not> is_Exception e \<longrightarrow> get_location env = Inl e)"
  by (auto simp: get_location_def locate_def no_coordinates_def interrupted_def
      unknown_location_def py_Nil_iff
      split: geo_reply.splits option.splits list.splits sum.splits)

theorem get_location_total_witness:
  "\<not> interrupted (geocoder_ip sample_env) \<and> no_coordinates (geocoder_ip sample_env)
   \<and> get_location sample_env
       = Inr (PStr (py ''Unknown''), PStr (py ''Unknown''), PStr (py ''Unknown place''))
   \<and> get_location (sample_env\<lparr>geocoder_ip := Geo_raises (BaseException (py ''SystemExit'') [])\<rparr>)
       = Inl (BaseException (py ''SystemExit'') [])"
proof -
  let ?env = "sample_env\<lparr>geocoder_ip := Geo_raises (BaseException (py ''SystemExit'') [])\<rparr>"
  have "\<forall>e. geocoder_ip ?env = Geo_raises e \<and> \<not> is_Exception e \<longrightarrow> get_location ?env = Inl e"
    using get_location_total [of ?env] by (elim conjE)
  then have x: "get_location ?env = Inl (BaseException (py ''SystemExit'') [])"
    by simp
  have i: "\<not> interrupted (geocoder_ip sample_env)"
    by (simp add: interrupted_def sample_env_def)
  have n: "no_coordinates (geocoder_ip sample_env)"
    by (simp add: no_coordinates_def sample_env_def)
  have "no_coordinates (geocoder_ip sample_env) \<longrightarrow> get_location sample_env = Inr unknown_location"
    using get_location_total [of sample_env] by (elim conjE)
  from this n have "get_location sample_env = Inr unknown_location" by (rule mp)
  then have g: "get_location sample_env
       = Inr (PStr (py ''Unknown''), PStr (py ''Unknown''), PStr (py ''Unknown place''))"
    by (simp only: unknown_location_def)
  show ?thesis by (intro conjI) (rule i, rule n, rule g, rule x)
qed

text \<open>
  The claim as stated fails: a \<open>KeyboardInterrupt\<close> that arrives during the call of the
  service is not an \<open>Exception\<close>, and \<open>get_location\<close> raises it to its caller.
\<close>

theorem keyboard_interrupt_escapes_get_location:
  "get_location (sample_env\<lparr>geocoder_ip := Geo_raises (BaseException (py ''KeyboardInterrupt'') [])\<rparr>)
     = Inl (BaseException (py ''KeyboardInterrupt'') [])"
  by (simp add: get_location_def locate_def)


section \<open>The notifier\<close>

text \<open>
  Claim C8. For every message and recipient: when one of the three credentials is empty,
  \<open>send_sms\<close> sends no request to the gateway, raises nothing and returns \<open>None\<close>;
  when all three are set it sends one request, with the recipient, the sender number and
  the message, and returns the identifier the gateway gives (an exception of the gateway
  is not caught).
\<close>

theorem send_sms_credentials:
  "(ACCOUNT_SID env = [] \<or> AUTH_TOKEN env = [] \<or> FROM_PHONE env = [] \<longrightarrow>
      fst (send_sms env message to_phone) = Inr None
      \<and> dispatches (snd (send_sms env message to_phone)) = [])
   \<and> (ACCOUNT_SID env \<noteq> [] \<and> AUTH_TOKEN env \<noteq> [] \<and> FROM_PHONE env \<noteq> [] \<longrightarrow>
      dispatches (snd (send_sms env message to_phone))
        = [Sms_request (ACCOUNT_SID env) (AUTH_TOKEN env) to_phone (FROM_PHONE env) message]
      \<and> fst (send_sms env message to_phone)
        = (case messages_create env (ACCOUNT_SID env) (AUTH_TOKEN env) to_phone (FROM_PHONE env) message of
             Inl e \<Rightarrow> Inl e | Inr sid \<Rightarrow> Inr (Some sid)))"
  by (auto simp: send_sms_def dispatches_def Let_def split: sum.splits)

theorem send_sms_credentials_witness:
  "AUTH_TOKEN (sample_env\<lparr>AUTH_TOKEN := []\<rparr>) = []
   \<and> fst (send_sms (sample_env\<lparr>AUTH_TOKEN := []\<rparr>) (py ''Alert'') (py ''+15551234567'')) = Inr None
   \<and> dispatches (snd (send_sms (sample_env\<lparr>AUTH_TOKEN := []\<rparr>) (py ''Alert'') (py ''+15551234567''))) = []
   \<and> ACCOUNT_SID sample_env \<noteq> [] \<and> AUTH_TOKEN sample_env \<noteq> [] \<and> FROM_PHONE sample_env \<noteq> []
   \<and> fst (send_sms sample_env (py ''Alert'') (py ''+15551234567'')) = Inr (Some (py ''SM01''))
   \<and> dispatches (snd (send_sms sample_env (py ''Alert'') (py ''+15551234567'')))
       = [Sms_request (py ''AC01'') (py ''secret'') (py ''+15551234567'') (py ''+15550001111'')
            (py ''Alert'')]"
  using send_sms_credentials [of "sample_env\<lparr>AUTH_TOKEN := []\<rparr>" "py ''Alert''" "py ''+15551234567''"]
    send_sms_credentials [of sample_env "py ''Alert''" "py ''+15551234567''"]
  by (simp add: sample_env_def py_Nil_iff)


section \<open>The upload handler\<close>

text \<open>
  Claim C1. The claim says that a form submission that is not JSON and carries only
  \<open>image_data\<close> is decoded, as the docstring of \<open>upload_image\<close> says too. The code
  does otherwise: in line 159 the conditional expression covers the whole \<open>or\<close>, so
  without a JSON content type \<open>image_data\<close> is the empty string whatever the form
  holds, and the handler answers "No image received.".
\<close>

theorem form_image_data_ignored:
  "upload_image env st
     \<lparr>files = Map.empty,
      form = [py ''image_data'' \<mapsto> py ''data:image/png;base64,iVBORw0KGgo=''],
      is_json = False, json = body\<rparr>
   = (Inr (Redirect (py ''detect_license_plate'')), [(py ''No image received.'', py ''error'')], [])"
  by (simp add: upload_image_def acquire_image_def acquire_from_data_def image_data_of_def)

text \<open>The same form field is read when the request does carry a JSON content type.\<close>

lemma form_image_data_read_when_json:
  "acquire_image sample_env
     \<lparr>files = Map.empty,
      form = [py ''image_data'' \<mapsto> py ''data:image/png;base64,iVBORw0KGgo=''],
      is_json = True, json = body\<rparr>
   = Got 12"
  by (simp add: acquire_image_def acquire_from_data_def image_data_of_def form_get_def
      read_image_from_base64_def sample_env_def py_def)

text \<open>
  A JSON body that is not an object has no \<open>get\<close>: the \<open>AttributeError\<close> is raised
  outside the \<open>try\<close> and leaves the handler.
\<close>

lemma json_list_body_raises:
  "fst (upload_image env st
     \<lparr>files = Map.empty, form = Map.empty, is_json = True, json = Json_value (JList [])\<rparr>)
   = Inl (no_attribute (JList []) ''get'')"
  by (simp add: upload_image_def acquire_image_def acquire_from_data_def image_data_of_def
      form_get_def)

text \<open>
  Claim C2, as amended. When the image is read, a plate matches, a recipient phone is
  configured, the three credentials are set and the gateway raises on the alert message,
  nothing catches the exception: it leaves \<open>send_sms\<close> and \<open>upload_image\<close>, no notice
  is flashed and no result page is rendered. The request to the gateway was made.
\<close>

theorem upload_image_gateway_error:
  assumes "acquire_image env req = Got img"
    and "find_matches (TARGET_PLATE_NUMBERS st) (detect_license_plate_from_image env img) \<noteq> []"
    and "RECIPIENT_PHONE_NUMBER st \<noteq> []"
    and "ACCOUNT_SID env \<noteq> [] \<and> AUTH_TOKEN env \<noteq> [] \<and> FROM_PHONE env \<noteq> []"
    and "get_location env = Inr (latitude, longitude, place_name)"
    and "messages_create env (ACCOUNT_SID env) (AUTH_TOKEN env) (RECIPIENT_PHONE_NUMBER st)
           (FROM_PHONE env)
           (alert_message env
              (find_matches (TARGET_PLATE_NUMBERS st) (detect_license_plate_from_image env img))
              latitude longitude place_name) = Inl e"
  shows "upload_image env st req =
           (Inl e, [],
            [Sms_request (ACCOUNT_SID env) (AUTH_TOKEN env) (RECIPIENT_PHONE_NUMBER st)
               (FROM_PHONE env)
               (alert_message env
                  (find_matches (TARGET_PLATE_NUMBERS st) (detect_license_plate_from_image env img))
                  latitude longitude place_name)])"
  using assms by (simp add: upload_image_def send_sms_def Let_def)

lemma sample_find_matches:
  "find_matches [py ''XYZ999''] [py ''AB 12 CD'', py ''XYZ999''] = [py ''XYZ999'']"
  by (simp add: find_matches_def normalize_detected_samples py_eq_iff py_Nil_iff)

lemma sample_acquire:
  "acquire_image (sample_env\<lparr>messages_create := g\<rparr>)
     \<lparr>files = [py ''image_file'' \<mapsto> \<lparr>filename = py ''car.png'', content = py ''PNG''\<rparr>],
      form = Map.empty, is_json = False, json = Json_bad []\<rparr> = Got 3"
  by (simp add: acquire_image_def read_image_from_file_storage_def sample_env_def py_def)

lemma sample_location:
  "get_location (sample_env\<lparr>messages_create := g\<rparr>)
     = Inr (PStr (py ''Unknown''), PStr (py ''Unknown''), PStr (py ''Unknown place''))"
  by (simp add: get_location_def locate_def sample_env_def unknown_location_def)

theorem upload_image_gateway_error_witness:
  "fst (upload_image
          (sample_env\<lparr>messages_create := (\<lambda>account token to_phone from_phone body.
              Inl (Exception (py ''TwilioRestException'') (py ''Unable to create record'')))\<rparr>)
          \<lparr>TARGET_PLATE_NUMBERS = [py ''XYZ999''], RECIPIENT_NAME = py ''Jane'',
            RECIPIENT_PHONE_NUMBER = py ''+15551234567''\<rparr>
          \<lparr>files = [py ''image_file'' \<mapsto> \<lparr>filename = py ''car.png'', content = py ''PNG''\<rparr>],
            form = Map.empty, is_json = False, json = Json_bad []\<rparr>)
   = Inl (Exception (py ''TwilioRestException'') (py ''Unable to create record''))
   \<and> fst (snd (upload_image
          (sample_env\<lparr>messages_create := (\<lambda>account token to_phone from_phone body.
              Inl (Exception (py ''TwilioRestException'') (py ''Unable to create record'')))\<rparr>)
          \<lparr>TARGET_PLATE_NUMBERS = [py ''XYZ999''], RECIPIENT_NAME = py ''Jane'',
            RECIPIENT_PHONE_NUMBER = py ''+15551234567''\<rparr>
          \<lparr>files = [py ''image_file'' \<mapsto> \<lparr>filename = py ''car.png'', content = py ''PNG''\<rparr>],
            form = Map.empty, is_json = False, json = Json_bad []\<rparr>)) = []"
proof -
  let ?env = "sample_env\<lparr>messages_create := (\<lambda>account token to_phone from_phone body.
              Inl (Exception (py ''TwilioRestException'') (py ''Unable to create record'')))\<rparr>"
  let ?st = "\<lparr>TARGET_PLATE_NUMBERS = [py ''XYZ999''], RECIPIENT_NAME = py ''Jane'',
            RECIPIENT_PHONE_NUMBER = py ''+15551234567''\<rparr>"
  let ?req = "\<lparr>files = [py ''image_file'' \<mapsto> \<lparr>filename = py ''car.png'', content = py ''PNG''\<rparr>],
            form = Map.empty, is_json = False, json = Json_bad []\<rparr>"
  have a: "acquire_image ?env ?req = Got 3" by (rule sample_acquire)
  have m: "find_matches (TARGET_PLATE_NUMBERS ?st) (detect_license_plate_from_image ?env 3) \<noteq> []"
    by (simp add: sample_detected sample_find_matches py_Nil_iff)
  have p: "RECIPIENT_PHONE_NUMBER ?st \<noteq> []" by (simp add: py_Nil_iff)
  have c: "ACCOUNT_SID ?env \<noteq> [] \<and> AUTH_TOKEN ?env \<noteq> [] \<and> FROM_PHONE ?env \<noteq> []"
    by (simp add: sample_env_def py_Nil_iff)
  have l: "get_location ?env
             = Inr (PStr (py ''Unknown''), PStr (py ''Unknown''), PStr (py ''Unknown place''))"
    by (rule sample_location)
  have g: "messages_create ?env (ACCOUNT_SID ?env) (AUTH_TOKEN ?env) (RECIPIENT_PHONE_NUMBER ?st)
           (FROM_PHONE ?env)
           (alert_message ?env
              (find_matches (TARGET_PLATE_NUMBERS ?st) (detect_license_plate_from_image ?env 3))
              (PStr (py ''Unknown'')) (PStr (py ''Unknown'')) (PStr (py ''Unknown place'')))
        = Inl (Exception (py ''TwilioRestException'') (py ''Unable to create record''))"
    by simp
  show ?thesis
    by (simp only: upload_image_gateway_error [OF a m p c l g] fst_conv snd_conv simp_thms)
qed

text \<open>
  The claim as stated fails: with a gateway that rejects the message, the handler raises
  the exception of the gateway instead of rendering the result page.
\<close>

theorem gateway_error_escapes_handler:
  "upload_image
          (sample_env\<lparr>messages_create := (\<lambda>account token to_phone from_phone body.
              Inl (Exception (py ''TwilioRestException'') (py ''Unable to create record'')))\<rparr>)
          \<lparr>TARGET_PLATE_NUMBERS = [py ''XYZ999''], RECIPIENT_NAME = py ''Jane'',
            RECIPIENT_PHONE_NUMBER = py ''+15551234567''\<rparr>
          \<lparr>files = [py ''image_file'' \<mapsto> \<lparr>filename = py ''car.png'', content = py ''PNG''\<rparr>],
            form = Map.empty, is_json = False, json = Json_bad []\<rparr>
   = (Inl (Exception (py ''TwilioRestException'') (py ''Unable to create record'')), [],
      [Sms_request (py ''AC01'') (py ''secret'') (py ''+15551234567'') (py ''+15550001111'')
         (py ''Alert: Detected plate(s) XYZ999 at Unknown place (lat: Unknown, lon: Unknown)'')])"
proof -
  let ?env = "sample_env\<lparr>messages_create := (\<lambda>account token to_phone from_phone body.
              Inl (Exception (py ''TwilioRestException'') (py ''Unable to create record'')))\<rparr>"
  have b: "alert_message ?env [py ''XYZ999''] (PStr (py ''Unknown'')) (PStr (py ''Unknown''))
             (PStr (py ''Unknown place''))
           = py ''Alert: Detected plate(s) XYZ999 at Unknown place (lat: Unknown, lon: Unknown)''"
    by (simp add: alert_message_def py_def)
  have s: "send_sms ?env
             (py ''Alert: Detected plate(s) XYZ999 at Unknown place (lat: Unknown, lon: Unknown)'')
             (py ''+15551234567'')
           = (Inl (Exception (py ''TwilioRestException'') (py ''Unable to create record'')),
              [Sms_request (py ''AC01'') (py ''secret'') (py ''+15551234567'') (py ''+15550001111'')
                 (py ''Alert: Detected plate(s) XYZ999 at Unknown place (lat: Unknown, lon: Unknown)'')])"
    by (simp add: send_sms_def sample_env_def py_Nil_iff)
  show ?thesis
    by (simp add: upload_image_def Let_def sample_acquire sample_detected sample_find_matches
        sample_location b s py_Nil_iff)
qed

end
